theory Spec2Isabelle
  imports Complex_Main
begin

section \<open>The MWT expander's orchestration, as a shallow embedding\<close>

text \<open>
  The source is \<^verbatim>\<open>models/mwt_expander.py\<close>: \<^verbatim>\<open>main\<close>, \<^verbatim>\<open>train\<close> and \<^verbatim>\<open>evaluate\<close>.
  Every function returns how it ended together with the effects it performed, in order:
  a call of a collaborator (data loader, trainers, scorer, configuration files, preset
  store) that changes the world or prints is an \<open>event\<close> of the trace. What the
  collaborators answer is not decided by this file; it is read from an environment
  \<open>env\<close>. Python floats are idealised as \<open>real\<close> (scores are assumed not to be NaN);
  the one product whose rounding a later comparison can see, the scaling of the best
  score at line 174, is the float product as the environment gives it (\<open>float_mul\<close>).
  Python ints are \<open>int\<close>, an option that argparse may leave at \<^verbatim>\<open>None\<close> is an
  \<open>option\<close>.
\<close>

subsection \<open>Configuration\<close>

datatype mode = ModeTrain | ModePredict

text \<open>
  The parsed command line (\<^verbatim>\<open>vars(args)\<close>), with the options this file reads. The
  remaining hyperparameters (hidden size, dropout, ...) are only handed on to the
  trainers. \<open>vocab_size\<close> is the key that \<^verbatim>\<open>train\<close> adds.
\<close>

record args =
  data_dir :: string
  train_file :: "string option"
  eval_file :: "string option"
  output_file :: "string option"
  gold_file :: "string option"
  mode :: mode
  lang :: "string option"
  best_param :: bool
  dict_only :: bool
  lr :: real
  lr_decay :: real
  decay_epoch :: int
  num_epoch :: int
  batch_size :: int
  log_step :: int
  save_dir :: string
  save_name :: "string option"
  seed :: int
  cuda :: bool
  cpu :: bool
  vocab_size :: "int option"

subsection \<open>Collaborators\<close>

type_synonym batch = nat
type_synonym pred = string

text \<open>What the orchestrator reads from a \<^verbatim>\<open>DataLoader\<close>: its batches (\<^verbatim>\<open>len\<close> and
  iteration), \<^verbatim>\<open>num_examples\<close>, \<^verbatim>\<open>len(vocab)\<close> and the two views of its document.\<close>

record loader =
  batches :: "batch list"
  num_examples :: int
  vocab_len :: int
  mwt_expansions :: "(string \<times> string) list"
  mwt_expansion_cands :: "string list"

record env =
  DataLoader :: "string \<Rightarrow> int \<Rightarrow> args \<Rightarrow> bool \<Rightarrow> loader"
  load_to_args :: "string option \<Rightarrow> args \<Rightarrow> args"
  load_config :: "string \<Rightarrow> args"
  update_loss :: "int \<Rightarrow> batch \<Rightarrow> real"
  seq_predict :: "nat \<Rightarrow> batch \<Rightarrow> pred list"
  dict_predict :: "string list \<Rightarrow> pred list"
  loaded_predict :: "string option \<Rightarrow> batch \<Rightarrow> pred list"
  loaded_dict_predict :: "string option \<Rightarrow> string list \<Rightarrow> pred list"
  score :: "pred list \<Rightarrow> real \<times> real \<times> real"
  float_mul :: "real \<Rightarrow> real \<Rightarrow> real"

text \<open>
  \<open>update_loss \<epsilon> g b\<close> is the loss that \<^verbatim>\<open>trainer.update\<close> returns at global step \<open>g\<close>;
  \<open>seq_predict \<epsilon> e b\<close> is what \<^verbatim>\<open>trainer.predict\<close> returns for batch \<open>b\<close> in the dev
  evaluation of epoch \<open>e\<close>; \<open>loaded_predict\<close> and \<open>loaded_dict_predict\<close> are the
  predictions of a trainer restored from a model file; \<open>score \<epsilon> ps\<close> is the triple
  (precision, recall, F1) of \<^verbatim>\<open>scorer.score\<close> on a system file holding \<open>ps\<close>;
  \<open>float_mul \<epsilon> x y\<close> is the product \<^verbatim>\<open>x * y\<close> of two floats, rounded as the machine
  rounds it.
\<close>

subsection \<open>Effects, errors and outcomes\<close>

datatype msg =
    RunningMode mode
  | LoadingData string int
  | SkipTraining
  | TrainingDict
  | EvaluatingDev
  | DevF1 real
  | StepLog int int nat int real real
  | EpochLog nat real real
  | NewBestSaved
  | EmptyLine
  | TrainingEnded nat
  | BestDev real nat
  | SkipEvaluation
  | ScoreHeader
  | ScoreLine "string option" "real option"
  | StartEvaluation

datatype event =
    TorchManualSeed int
  | NumpySeed int
  | RandomSeed int
  | CudaManualSeed int
  | Print msg
  | SaveConfig args string
  | LoadConfig string
  | NewDictTrainer args
  | NewTrainer args int
  | DictTrain "(string \<times> string) list"
  | DictPredict "string list"
  | Update batch
  | Predict batch
  | WriteConll "pred list" string
  | Score string "string option"
  | TrainerSave "string option"
  | TrainerLoad "string option"
  | ChangeLr real
  | ParamUpdate "string option" args real

datatype py_error =
  TypeError | ValueError | IndexError | ZeroDivisionError | UnboundLocalError | RuntimeError

datatype outcome = Returned | Exited | Raised py_error

text \<open>A step that fails keeps the trace written up to the failure.\<close>

type_synonym 'a result = "(py_error \<times> event list) + 'a"

subsection \<open>Python built-ins used by the source\<close>

text \<open>\<^verbatim>\<open>'{}'.format(x)\<close> for an optional string: \<^verbatim>\<open>None\<close> prints as its name.\<close>

fun fmt :: "string option \<Rightarrow> string" where
  "fmt None = ''None''"
| "fmt (Some s) = s"

text \<open>\<^verbatim>\<open>max(xs)\<close>: \<^verbatim>\<open>ValueError\<close> on the empty list; the first maximal element otherwise.\<close>

fun py_max :: "real list \<Rightarrow> py_error + real" where
  "py_max [] = Inl ValueError"
| "py_max (x # xs) = Inr (fold (\<lambda>y m. if y > m then y else m) xs x)"

text \<open>\<^verbatim>\<open>np.argmax(xs)\<close>: the index of the first occurrence of the maximum.\<close>

fun argmax_loop :: "real list \<Rightarrow> nat \<Rightarrow> real \<Rightarrow> nat \<Rightarrow> nat" where
  "argmax_loop [] i best besti = besti"
| "argmax_loop (y # ys) i best besti =
     (if y > best then argmax_loop ys (Suc i) y i else argmax_loop ys (Suc i) best besti)"

fun np_argmax :: "real list \<Rightarrow> py_error + nat" where
  "np_argmax [] = Inl ValueError"
| "np_argmax (x # xs) = Inr (argmax_loop xs 1 x 0)"

subsection \<open>The seq2seq training loop (lines 127 to 177)\<close>

record loop_state =
  global_step :: int
  dev_score_history :: "real list"
  current_lr :: real
  trace :: "event list"

text \<open>Lines 137 to 145: one pass over the training batches. \<^verbatim>\<open>global_step % log_step\<close>
  raises when \<open>log_step\<close> is 0.\<close>

fun update_loop ::
  "args \<Rightarrow> env \<Rightarrow> int \<Rightarrow> nat \<Rightarrow> batch list \<Rightarrow> real \<Rightarrow> loop_state \<Rightarrow> (real \<times> loop_state) result"
where
  "update_loop a \<epsilon> max_steps epoch [] train_loss st = Inr (train_loss, st)"
| "update_loop a \<epsilon> max_steps epoch (b # bs) train_loss st =
     (let g = global_step st + 1;
          loss = update_loss \<epsilon> g b;
          tr = trace st @ [Update b];
          train_loss' = train_loss + loss
      in if log_step a = 0 then Inl (ZeroDivisionError, tr)
         else update_loop a \<epsilon> max_steps epoch bs train_loss'
                (st\<lparr>global_step := g,
                    trace := (if g mod log_step a = 0
                              then tr @ [Print (StepLog g max_steps epoch (num_epoch a) loss (current_lr st))]
                              else tr)\<rparr>))"

text \<open>Lines 149 to 154: the predictions of every dev batch, concatenated, and their F1.\<close>

definition dev_preds_of :: "env \<Rightarrow> loader \<Rightarrow> nat \<Rightarrow> pred list" where
  "dev_preds_of \<epsilon> dev_batch epoch = concat (map (seq_predict \<epsilon> epoch) (batches dev_batch))"

definition dev_f :: "env \<Rightarrow> loader \<Rightarrow> nat \<Rightarrow> real" where
  "dev_f \<epsilon> dev_batch epoch = snd (snd (score \<epsilon> (dev_preds_of \<epsilon> dev_batch epoch)))"

text \<open>Lines 159 to 162: save best model. \<^verbatim>\<open>or\<close> short-circuits, so \<^verbatim>\<open>max\<close> is only
  called from the second epoch on.\<close>

definition checkpoint_decision :: "args \<Rightarrow> nat \<Rightarrow> real \<Rightarrow> loop_state \<Rightarrow> loop_state result" where
  "checkpoint_decision a epoch dev_score st =
     (let saved = st\<lparr>trace := trace st @ [TrainerSave (save_name a), Print NewBestSaved]\<rparr>
      in if epoch = 1 then Inr saved
         else (case py_max (dev_score_history st) of
                 Inl e \<Rightarrow> Inl (e, trace st)
               | Inr m \<Rightarrow> if dev_score > m then Inr saved else Inr st))"

text \<open>Lines 164 to 167: lr schedule. \<^verbatim>\<open>and\<close> short-circuits, so the history is only
  indexed once the epoch is past \<open>decay_epoch\<close>; \<^verbatim>\<open>xs[-1]\<close> raises on the empty list.\<close>

definition lr_decision :: "args \<Rightarrow> nat \<Rightarrow> real \<Rightarrow> loop_state \<Rightarrow> loop_state result" where
  "lr_decision a epoch dev_score st =
     (if int epoch > decay_epoch a
      then (case dev_score_history st of
              [] \<Rightarrow> Inl (IndexError, trace st)
            | _ # _ \<Rightarrow>
                if dev_score \<le> last (dev_score_history st)
                then (let new_lr = current_lr st * lr_decay a
                      in Inr (st\<lparr>current_lr := new_lr, trace := trace st @ [ChangeLr new_lr]\<rparr>))
                else Inr st)
      else Inr st)"

text \<open>Lines 136 to 170: the body of the epoch loop.\<close>

definition epoch_body ::
  "args \<Rightarrow> env \<Rightarrow> loader \<Rightarrow> loader \<Rightarrow> string \<Rightarrow> string option \<Rightarrow> int \<Rightarrow> nat \<Rightarrow> loop_state
   \<Rightarrow> loop_state result"
where
  "epoch_body a \<epsilon> train_batch dev_batch system_pred_file gold max_steps epoch st =
     (case update_loop a \<epsilon> max_steps epoch (batches train_batch) 0 st of
        Inl e \<Rightarrow> Inl e
      | Inr (train_loss, st1) \<Rightarrow>
          (let dev_preds = dev_preds_of \<epsilon> dev_batch epoch;
               tr2 = trace st1 @ [Print EvaluatingDev] @ map Predict (batches dev_batch)
                     @ [WriteConll dev_preds system_pred_file, Score system_pred_file gold];
               dev_score = dev_f \<epsilon> dev_batch epoch
           in if num_examples train_batch = 0 then Inl (ZeroDivisionError, tr2)
              else
                (let train_loss' = train_loss / real_of_int (num_examples train_batch)
                                   * real_of_int (batch_size a);
                     st3 = st1\<lparr>trace := tr2 @ [Print (EpochLog epoch train_loss' dev_score)]\<rparr>
                 in case checkpoint_decision a epoch dev_score st3 of
                      Inl e \<Rightarrow> Inl e
                    | Inr st4 \<Rightarrow>
                        (case lr_decision a epoch dev_score st4 of
                           Inl e \<Rightarrow> Inl e
                         | Inr st5 \<Rightarrow>
                             Inr (st5\<lparr>dev_score_history := dev_score_history st5 @ [dev_score],
                                      trace := trace st5 @ [Print EmptyLine]\<rparr>)))))"

text \<open>Line 135: \<^verbatim>\<open>for epoch in range(1, num_epoch + 1)\<close>. \<open>epoch_loop ... st0 k\<close> is the
  state after the first \<open>k\<close> iterations, epochs \<open>1\<close> to \<open>k\<close>; an iteration that raises
  ends the loop.\<close>

primrec epoch_loop ::
  "args \<Rightarrow> env \<Rightarrow> loader \<Rightarrow> loader \<Rightarrow> string \<Rightarrow> string option \<Rightarrow> int \<Rightarrow> loop_state \<Rightarrow> nat
   \<Rightarrow> loop_state result"
where
  "epoch_loop a \<epsilon> train_batch dev_batch system_pred_file gold max_steps st0 0 = Inr st0"
| "epoch_loop a \<epsilon> train_batch dev_batch system_pred_file gold max_steps st0 (Suc k) =
     (case epoch_loop a \<epsilon> train_batch dev_batch system_pred_file gold max_steps st0 k of
        Inl e \<Rightarrow> Inl e
      | Inr st \<Rightarrow> epoch_body a \<epsilon> train_batch dev_batch system_pred_file gold max_steps (Suc k) st)"

text \<open>Lines 124 to 177. With no iteration, \<^verbatim>\<open>epoch\<close> is unbound at line 172.\<close>

definition train_seq2seq ::
  "args \<Rightarrow> env \<Rightarrow> string option \<Rightarrow> loader \<Rightarrow> loader \<Rightarrow> string \<Rightarrow> string option \<Rightarrow> event list
   \<Rightarrow> outcome \<times> event list"
where
  "train_seq2seq a \<epsilon> pm_lang train_batch dev_batch system_pred_file gold tr =
     (let max_steps = int (length (batches train_batch)) * num_epoch a;
          st0 = \<lparr>global_step = 0, dev_score_history = [], current_lr = lr a,
                 trace = tr @ [NewTrainer a (vocab_len train_batch)]\<rparr>
      in case epoch_loop a \<epsilon> train_batch dev_batch system_pred_file gold max_steps st0
                (nat (num_epoch a)) of
           Inl (e, tr') \<Rightarrow> (Raised e, tr')
         | Inr st \<Rightarrow>
             if num_epoch a < 1 then (Raised UnboundLocalError, trace st)
             else
               (let tr2 = trace st @ [Print (TrainingEnded (nat (num_epoch a)))]
                in case py_max (dev_score_history st) of
                     Inl e \<Rightarrow> (Raised e, tr2)
                   | Inr m \<Rightarrow>
                       (case np_argmax (dev_score_history st) of
                          Inl e \<Rightarrow> (Raised e, tr2)
                        | Inr i \<Rightarrow>
                            (let best_f = float_mul \<epsilon> m 100; best_epoch = i + 1
                             in (Returned, tr2 @ [Print (BestDev best_f best_epoch),
                                                  ParamUpdate pm_lang a best_f])))))"

subsection \<open>The dictionary strategy (lines 113 to 122)\<close>

definition train_dict ::
  "args \<Rightarrow> env \<Rightarrow> loader \<Rightarrow> loader \<Rightarrow> string \<Rightarrow> string option \<Rightarrow> event list
   \<Rightarrow> outcome \<times> event list"
where
  "train_dict a \<epsilon> train_batch dev_batch system_pred_file gold tr =
     (let dev_preds = dict_predict \<epsilon> (mwt_expansion_cands dev_batch);
          dev_f1 = snd (snd (score \<epsilon> dev_preds))
      in (Returned,
          tr @ [NewDictTrainer a, Print TrainingDict, DictTrain (mwt_expansions train_batch),
                Print EvaluatingDev, DictPredict (mwt_expansion_cands dev_batch),
                WriteConll dev_preds system_pred_file, Score system_pred_file gold,
                Print (DevF1 (dev_f1 * 100)), TrainerSave (save_name a)]))"

subsection \<open>\<^verbatim>\<open>train\<close> (lines 84 to 177)\<close>

definition model_file_of :: "args \<Rightarrow> string" where
  "model_file_of a =
     (case save_name a of
        Some n \<Rightarrow> save_dir a @ ''/'' @ n
      | None \<Rightarrow> save_dir a @ ''/'' @ fmt (lang a) @ ''_mwt_expander.pt'')"

definition config_file_of :: "args \<Rightarrow> string" where
  "config_file_of a = save_dir a @ ''/'' @ fmt (lang a) @ ''_config.json''"

definition train_loader :: "args \<Rightarrow> env \<Rightarrow> loader" where
  "train_loader a \<epsilon> = DataLoader \<epsilon> (data_dir a @ ''/'' @ fmt (train_file a)) (batch_size a) a False"

text \<open>The dev loader receives the same dictionary, which by then holds \<^verbatim>\<open>vocab_size\<close>.\<close>

definition with_vocab :: "args \<Rightarrow> env \<Rightarrow> args" where
  "with_vocab a \<epsilon> = a\<lparr>vocab_size := Some (vocab_len (train_loader a \<epsilon>))\<rparr>"

definition dev_loader :: "args \<Rightarrow> env \<Rightarrow> loader" where
  "dev_loader a \<epsilon> =
     DataLoader \<epsilon> (data_dir a @ ''/'' @ fmt (eval_file a)) (batch_size a) (with_vocab a \<epsilon>) True"

text \<open>Lines 92 to 94: \<^verbatim>\<open>save_name\<close> becomes the path of the model file.\<close>

definition resolved :: "args \<Rightarrow> env \<Rightarrow> args" where
  "resolved a \<epsilon> = (with_vocab a \<epsilon>)\<lparr>save_name := Some (model_file_of a)\<rparr>"

text \<open>Lines 101 to 103: the preset manager is keyed by the language of the command line;
  with \<^verbatim>\<open>--best_param\<close> the arguments are replaced by what it returns.\<close>

definition effective_args :: "args \<Rightarrow> env \<Rightarrow> args" where
  "effective_args a \<epsilon> =
     (if best_param a then load_to_args \<epsilon> (lang a) (resolved a \<epsilon>) else resolved a \<epsilon>)"

definition train :: "args \<Rightarrow> env \<Rightarrow> outcome \<times> event list" where
  "train a \<epsilon> =
     (let tr0 = [Print (LoadingData (data_dir a) (batch_size a))];
          train_batch = train_loader a \<epsilon>;
          dev_batch = dev_loader a \<epsilon>
      in case output_file a of
           None \<Rightarrow> (Raised TypeError, tr0)
         | Some out \<Rightarrow>
             (let system_pred_file = data_dir a @ ''/'' @ out;
                  gold = gold_file a;
                  a' = effective_args a \<epsilon>;
                  tr1 = tr0 @ [SaveConfig a' (config_file_of a')]
              in if length (batches train_batch) = 0 \<or> length (batches dev_batch) = 0
                 then (Exited, tr1 @ [Print SkipTraining])
                 else if dict_only a'
                 then train_dict a' \<epsilon> train_batch dev_batch system_pred_file gold tr1
                 else train_seq2seq a' \<epsilon> (lang a) train_batch dev_batch system_pred_file gold tr1))"

subsection \<open>\<^verbatim>\<open>evaluate\<close> (lines 179 to 218)\<close>

definition evaluate :: "args \<Rightarrow> env \<Rightarrow> outcome \<times> event list" where
  "evaluate a \<epsilon> =
     (let config_file = config_file_of a;
          loaded_args = load_config \<epsilon> config_file;
          tr0 = [LoadConfig config_file, Print (LoadingData (data_dir a) (batch_size a))];
          batch = DataLoader \<epsilon> (data_dir a @ ''/'' @ fmt (eval_file a)) (batch_size a)
                    loaded_args True
      in if length (batches batch) = 0
         then (Exited, tr0 @ [Print SkipEvaluation, Print ScoreHeader, Print (ScoreLine (lang a) None)])
         else
           (case output_file a of
              None \<Rightarrow> (Raised TypeError, tr0)
            | Some out \<Rightarrow>
                (let system_pred_file = data_dir a @ ''/'' @ out;
                     gold = gold_file a;
                     model_file = save_name loaded_args;
                     (preds, tr1) =
                       (if dict_only loaded_args
                        then (loaded_dict_predict \<epsilon> model_file (mwt_expansion_cands batch),
                              tr0 @ [NewDictTrainer loaded_args, TrainerLoad model_file,
                                     DictPredict (mwt_expansion_cands batch)])
                        else (concat (map (loaded_predict \<epsilon> model_file) (batches batch)),
                              tr0 @ [NewTrainer loaded_args (vocab_len batch), TrainerLoad model_file,
                                     Print StartEvaluation] @ map Predict (batches batch)));
                     f1 = snd (snd (score \<epsilon> preds))
                 in (Returned,
                     tr1 @ [WriteConll preds system_pred_file, Score system_pred_file gold,
                            Print ScoreHeader, Print (ScoreLine (lang a) (Some (f1 * 100)))]))))"

subsection \<open>\<^verbatim>\<open>main\<close> (lines 65 to 82)\<close>

text \<open>Lines 68 to 70. \<^verbatim>\<open>torch.manual_seed\<close> takes a seed from \<open>-2^63\<close> to \<open>2^64 - 1\<close> and
  raises \<^verbatim>\<open>RuntimeError\<close> on any other; \<^verbatim>\<open>np.random.seed\<close> takes a seed from \<open>0\<close> to
  \<open>2^32 - 1\<close> and raises \<^verbatim>\<open>ValueError\<close> on any other. \<^verbatim>\<open>random.seed(1234)\<close> comes after
  both. A seed that numpy has accepted is also in the range of \<^verbatim>\<open>torch.cuda.manual_seed\<close>.\<close>

definition main :: "args \<Rightarrow> env \<Rightarrow> outcome \<times> event list" where
  "main a \<epsilon> =
     (if seed a < - (2 ^ 63) \<or> 2 ^ 64 - 1 < seed a then (Raised RuntimeError, [])
      else if seed a < 0 \<or> 2 ^ 32 - 1 < seed a
      then (Raised ValueError, [TorchManualSeed (seed a)])
      else
        (let tr0 = [TorchManualSeed (seed a), NumpySeed (seed a), RandomSeed 1234];
             (a1, tr1) = (if cpu a then (a\<lparr>cuda := False\<rparr>, tr0)
                          else if cuda a then (a, tr0 @ [CudaManualSeed (seed a)])
                          else (a, tr0));
             tr2 = tr1 @ [Print (RunningMode (mode a1))];
             (out, tr3) = (if mode a1 = ModeTrain then train a1 \<epsilon> else evaluate a1 \<epsilon>)
         in (out, tr2 @ tr3)))"

subsection \<open>Classifying events\<close>

text \<open>The events of the update pass and of the dev evaluation, and every print.\<close>

fun quiet :: "event \<Rightarrow> bool" where
  "quiet (Update b) = True"
| "quiet (Predict b) = True"
| "quiet (WriteConll ps f) = True"
| "quiet (Score f g) = True"
| "quiet (Print m) = True"
| "quiet e = False"

fun is_save :: "event \<Rightarrow> bool" where
  "is_save (TrainerSave p) = True"
| "is_save e = False"

fun is_change_lr :: "event \<Rightarrow> bool" where
  "is_change_lr (ChangeLr r) = True"
| "is_change_lr e = False"

fun is_random_seed :: "event \<Rightarrow> bool" where
  "is_random_seed (RandomSeed n) = True"
| "is_random_seed e = False"

text \<open>Everything that builds, trains, queries, stores or restores a trainer.\<close>

fun trainer_event :: "event \<Rightarrow> bool" where
  "trainer_event (NewDictTrainer a) = True"
| "trainer_event (NewTrainer a n) = True"
| "trainer_event (DictTrain ps) = True"
| "trainer_event (DictPredict cs) = True"
| "trainer_event (Update b) = True"
| "trainer_event (Predict b) = True"
| "trainer_event (TrainerSave p) = True"
| "trainer_event (TrainerLoad p) = True"
| "trainer_event (ChangeLr r) = True"
| "trainer_event e = False"

text \<open>What the two decisions of an iteration append to the trace, given the score of the
  epoch, the history before it and the learning rate before it.\<close>

definition save_events :: "args \<Rightarrow> nat \<Rightarrow> real \<Rightarrow> real list \<Rightarrow> event list" where
  "save_events a epoch d h =
     (if epoch = 1 \<or> d > Max (set h) then [TrainerSave (save_name a), Print NewBestSaved] else [])"

definition lr_events :: "args \<Rightarrow> nat \<Rightarrow> real \<Rightarrow> real list \<Rightarrow> real \<Rightarrow> event list" where
  "lr_events a epoch d h r =
     (if int epoch > decay_epoch a \<and> d \<le> last h then [ChangeLr (r * lr_decay a)] else [])"

text \<open>Every event that an iteration of the epoch loop can emit.\<close>

definition loop_event :: "event \<Rightarrow> bool" where
  "loop_event e = (quiet e \<or> is_save e \<or> is_change_lr e)"

text \<open>The trace of a step, whether it failed or not.\<close>

fun result_trace :: "loop_state result \<Rightarrow> event list" where
  "result_trace (Inl (e, tr)) = tr"
| "result_trace (Inr st) = trace st"

subsection \<open>The preset store\<close>

type_synonym preset_store = "string option \<rightharpoonup> args \<times> real"

text \<open>Modelled from the spec: \<^verbatim>\<open>ParamManager.update\<close> of \<^verbatim>\<open>models/common/param.py\<close>,
  which is not among the source files. The spec's preset record is, per language, the
  best known configuration and the F1 it achieved, "updated only when a run's best score
  exceeds the recorded one"; a language without a record receives one.\<close>

definition preset_update :: "preset_store \<Rightarrow> string option \<Rightarrow> args \<Rightarrow> real \<Rightarrow> preset_store" where
  "preset_update store l cfg f =
     (case store l of
        None \<Rightarrow> store(l \<mapsto> (cfg, f))
      | Some (c, s) \<Rightarrow> if s < f then store(l \<mapsto> (cfg, f)) else store)"

text \<open>The store after a run: each \<^verbatim>\<open>param_manager.update\<close> call of the trace, applied in
  order.\<close>

fun apply_event :: "event \<Rightarrow> preset_store \<Rightarrow> preset_store" where
  "apply_event (ParamUpdate l cfg f) store = preset_update store l cfg f"
| "apply_event e store = store"

definition presets_after :: "event list \<Rightarrow> preset_store \<Rightarrow> preset_store" where
  "presets_after tr store = fold apply_event tr store"

subsection \<open>A concrete run\<close>

text \<open>Three epochs over two training batches and one dev batch; the dev F1 of the epochs
  is 0.5, 0.3 and 0.5, and the decay starts after epoch 1.\<close>

definition demo_args :: args where
  "demo_args =
     \<lparr>data_dir = ''data'', train_file = Some ''train.conllu'', eval_file = Some ''dev.conllu'',
      output_file = Some ''out.conllu'', gold_file = Some ''gold.conllu'', mode = ModeTrain,
      lang = Some ''fr'', best_param = False, dict_only = False, lr = 1 / 1000,
      lr_decay = 9 / 10, decay_epoch = 1, num_epoch = 3, batch_size = 50, log_step = 2,
      save_dir = ''saved'', save_name = Some ''fr.pt'', seed = 7, cuda = False, cpu = True,
      vocab_size = None\<rparr>"

definition demo_eff :: args where
  "demo_eff = demo_args\<lparr>save_name := Some ''saved/fr.pt'', vocab_size := Some 30\<rparr>"

definition demo_train :: loader where
  "demo_train = \<lparr>batches = [0, 1], num_examples = 80, vocab_len = 30,
                  mwt_expansions = [(''du'', ''de le'')], mwt_expansion_cands = [''du'']\<rparr>"

definition demo_dev :: loader where
  "demo_dev = \<lparr>batches = [0], num_examples = 20, vocab_len = 30,
                mwt_expansions = [(''au'', ''a le'')], mwt_expansion_cands = [''au'']\<rparr>"

definition no_data :: loader where
  "no_data = \<lparr>batches = [], num_examples = 0, vocab_len = 0,
               mwt_expansions = [], mwt_expansion_cands = []\<rparr>"

definition demo_env :: env where
  "demo_env =
     \<lparr>DataLoader = (\<lambda>p n a ev. if p = ''data/train.conllu'' then demo_train
                               else if p = ''data/dev.conllu'' then demo_dev else no_data),
      load_to_args = (\<lambda>l a. a\<lparr>num_epoch := 1\<rparr>),
      load_config = (\<lambda>p. demo_eff\<lparr>dict_only := True\<rparr>),
      update_loss = (\<lambda>g b. 1),
      seq_predict = (\<lambda>e b. if e = 2 then [''b''] else [''a'']),
      dict_predict = (\<lambda>cs. cs),
      loaded_predict = (\<lambda>m b. [''a'']),
      loaded_dict_predict = (\<lambda>m cs. cs),
      score = (\<lambda>ps. if ps = [''a''] then (1, 1 / 3, 1 / 2) else (1 / 2, 3 / 14, 3 / 10)),
      float_mul = (\<lambda>x y. x * y)\<rparr>"

definition demo_prefix :: "event list" where
  "demo_prefix =
     [Print (LoadingData ''data'' 50), SaveConfig demo_eff ''saved/fr_config.json'',
      NewTrainer demo_eff 30]"

definition demo_trace1 :: "event list" where
  "demo_trace1 =
     [Update 0, Update 1, Print (StepLog 2 6 1 3 1 (1 / 1000)),
      Print EvaluatingDev, Predict 0, WriteConll [''a''] ''data/out.conllu'',
      Score ''data/out.conllu'' (Some ''gold.conllu''), Print (EpochLog 1 (5 / 4) (1 / 2)),
      TrainerSave (Some ''saved/fr.pt''), Print NewBestSaved, Print EmptyLine]"

definition demo_trace2 :: "event list" where
  "demo_trace2 =
     [Update 0, Update 1, Print (StepLog 4 6 2 3 1 (1 / 1000)),
      Print EvaluatingDev, Predict 0, WriteConll [''b''] ''data/out.conllu'',
      Score ''data/out.conllu'' (Some ''gold.conllu''), Print (EpochLog 2 (5 / 4) (3 / 10)),
      ChangeLr (9 / 10000), Print EmptyLine]"

definition demo_trace3 :: "event list" where
  "demo_trace3 =
     [Update 0, Update 1, Print (StepLog 6 6 3 3 1 (9 / 10000)),
      Print EvaluatingDev, Predict 0, WriteConll [''a''] ''data/out.conllu'',
      Score ''data/out.conllu'' (Some ''gold.conllu''), Print (EpochLog 3 (5 / 4) (1 / 2)),
      Print EmptyLine]"

definition demo_st0 :: loop_state where
  "demo_st0 = \<lparr>global_step = 0, dev_score_history = [], current_lr = 1 / 1000,
               trace = demo_prefix\<rparr>"

definition demo_st1 :: loop_state where
  "demo_st1 = \<lparr>global_step = 2, dev_score_history = [1 / 2], current_lr = 1 / 1000,
               trace = demo_prefix @ demo_trace1\<rparr>"

definition demo_st2 :: loop_state where
  "demo_st2 = \<lparr>global_step = 4, dev_score_history = [1 / 2, 3 / 10], current_lr = 9 / 10000,
               trace = demo_prefix @ demo_trace1 @ demo_trace2\<rparr>"

definition demo_st3 :: loop_state where
  "demo_st3 = \<lparr>global_step = 6, dev_score_history = [1 / 2, 3 / 10, 1 / 2],
               current_lr = 9 / 10000,
               trace = demo_prefix @ demo_trace1 @ demo_trace2 @ demo_trace3\<rparr>"

text \<open>A second run on the same data, where the trainer improves: the dev F1 of the epochs
  is 0.3, 0.5 and 0.5, so the best score is first reached at epoch 2.\<close>

definition demo_env2 :: env where
  "demo_env2 = demo_env\<lparr>seq_predict := (\<lambda>e b. if e = 1 then [''b''] else [''a''])\<rparr>"

definition demo2_st1 :: loop_state where
  "demo2_st1 =
     \<lparr>global_step = 2, dev_score_history = [3 / 10], current_lr = 1 / 1000,
      trace = demo_prefix @
        [Update 0, Update 1, Print (StepLog 2 6 1 3 1 (1 / 1000)),
         Print EvaluatingDev, Predict 0, WriteConll [''b''] ''data/out.conllu'',
         Score ''data/out.conllu'' (Some ''gold.conllu''), Print (EpochLog 1 (5 / 4) (3 / 10)),
         TrainerSave (Some ''saved/fr.pt''), Print NewBestSaved, Print EmptyLine]\<rparr>"

definition demo2_st2 :: loop_state where
  "demo2_st2 =
     \<lparr>global_step = 4, dev_score_history = [3 / 10, 1 / 2], current_lr = 1 / 1000,
      trace = trace demo2_st1 @
        [Update 0, Update 1, Print (StepLog 4 6 2 3 1 (1 / 1000)),
         Print EvaluatingDev, Predict 0, WriteConll [''a''] ''data/out.conllu'',
         Score ''data/out.conllu'' (Some ''gold.conllu''), Print (EpochLog 2 (5 / 4) (1 / 2)),
         TrainerSave (Some ''saved/fr.pt''), Print NewBestSaved, Print EmptyLine]\<rparr>"

definition demo2_st3 :: loop_state where
  "demo2_st3 =
     \<lparr>global_step = 6, dev_score_history = [3 / 10, 1 / 2, 1 / 2], current_lr = 9 / 10000,
      trace = trace demo2_st2 @
        [Update 0, Update 1, Print (StepLog 6 6 3 3 1 (1 / 1000)),
         Print EvaluatingDev, Predict 0, WriteConll [''a''] ''data/out.conllu'',
         Score ''data/out.conllu'' (Some ''gold.conllu''), Print (EpochLog 3 (5 / 4) (1 / 2)),
         ChangeLr (9 / 10000), Print EmptyLine]\<rparr>"

section \<open>Properties\<close>

subsection \<open>The built-ins\<close>

lemma fold_py_max: "fold (\<lambda>y m. if y > m then y else m) xs (x::real) = Max (set (x # xs))"
proof -
  have "(\<lambda>y m. if y > m then y else m) = (max :: real \<Rightarrow> real \<Rightarrow> real)"
    by (auto simp: fun_eq_iff max_def)
  then show ?thesis by (simp only: Max.set_eq_fold)
qed

lemma py_max_Max: "xs \<noteq> [] \<Longrightarrow> py_max xs = Inr (Max (set xs))"
proof (cases xs)
  case Nil
  assume "xs \<noteq> []"
  with Nil show ?thesis by simp
next
  case (Cons x ys)
  then show ?thesis by (simp only: py_max.simps fold_py_max)
qed

lemma argmax_loop_spec:
  assumes "besti < i" "i = length pre" "pre ! besti = best" "best = Max (set pre)"
          "\<forall>j<besti. pre ! j < best"
  shows "let r = argmax_loop ys i best besti in
           r < length (pre @ ys) \<and> (pre @ ys) ! r = Max (set (pre @ ys)) \<and>
           (\<forall>j<r. (pre @ ys) ! j < Max (set (pre @ ys)))"
  using assms
proof (induction ys arbitrary: i best besti pre)
  case Nil
  then show ?case by simp
next
  case (Cons y ys)
  have ne: "pre \<noteq> []" using Cons.prems by auto
  show ?case
  proof (cases "y > best")
    case True
    have "Max (set (pre @ [y])) = max y (Max (set pre))"
      using ne by simp
    also have "\<dots> = y"
      using True Cons.prems(4) by linarith
    finally have m: "Max (set (pre @ [y])) = y" .
    have lt: "\<forall>j<i. (pre @ [y]) ! j < y"
    proof (intro allI impI)
      fix j assume "j < i"
      then have "pre ! j \<in> set pre" using Cons.prems(2) by simp
      then have "pre ! j \<le> best" using Cons.prems(4) by simp
      then show "(pre @ [y]) ! j < y" using True \<open>j < i\<close> Cons.prems(2) by (simp add: nth_append)
    qed
    have "let r = argmax_loop ys (Suc i) y i in
           r < length ((pre @ [y]) @ ys) \<and> ((pre @ [y]) @ ys) ! r = Max (set ((pre @ [y]) @ ys)) \<and>
           (\<forall>j<r. ((pre @ [y]) @ ys) ! j < Max (set ((pre @ [y]) @ ys)))"
      by (rule Cons.IH) (use Cons.prems m lt in \<open>simp_all add: nth_append\<close>)
    then show ?thesis using True by simp
  next
    case False
    have "Max (set (pre @ [y])) = max y (Max (set pre))"
      using ne by simp
    also have "\<dots> = best"
      using False Cons.prems(4) by linarith
    finally have m: "Max (set (pre @ [y])) = best" .
    have "let r = argmax_loop ys (Suc i) best besti in
           r < length ((pre @ [y]) @ ys) \<and> ((pre @ [y]) @ ys) ! r = Max (set ((pre @ [y]) @ ys)) \<and>
           (\<forall>j<r. ((pre @ [y]) @ ys) ! j < Max (set ((pre @ [y]) @ ys)))"
      by (rule Cons.IH) (use Cons.prems m in \<open>simp_all add: nth_append\<close>)
    then show ?thesis using False by simp
  qed
qed

lemma np_argmax_first:
  assumes "xs \<noteq> []"
  shows "\<exists>i. np_argmax xs = Inr i \<and> i < length xs \<and> xs ! i = Max (set xs) \<and>
             (\<forall>j<i. xs ! j < Max (set xs))"
proof -
  obtain x ys where xs: "xs = x # ys" using assms by (cases xs) auto
  have "let r = argmax_loop ys 1 x 0 in
           r < length ([x] @ ys) \<and> ([x] @ ys) ! r = Max (set ([x] @ ys)) \<and>
           (\<forall>j<r. ([x] @ ys) ! j < Max (set ([x] @ ys)))"
    by (rule argmax_loop_spec) simp_all
  then show ?thesis unfolding xs by (simp add: Let_def)
qed

subsection \<open>The update pass\<close>

lemma update_loop_Inr:
  "update_loop a \<epsilon> ms e bs losses st = Inr (losses', st') \<Longrightarrow>
     dev_score_history st' = dev_score_history st \<and> current_lr st' = current_lr st \<and>
     global_step st' = global_step st + int (length bs) \<and>
     (\<exists>us. trace st' = trace st @ us \<and> list_all quiet us)"
proof (induction bs arbitrary: losses st)
  case Nil
  then show ?case by simp
next
  case (Cons b bs)
  from Cons.prems have nz: "log_step a \<noteq> 0"
    by (auto simp: Let_def split: if_splits)
  let ?g = "global_step st + 1"
  let ?tr = "trace st @ [Update b]"
  let ?st = "st\<lparr>global_step := ?g,
                 trace := (if ?g mod log_step a = 0
                           then ?tr @ [Print (StepLog ?g ms e (num_epoch a) (update_loss \<epsilon> ?g b) (current_lr st))]
                           else ?tr)\<rparr>"
  from Cons.prems nz have "update_loop a \<epsilon> ms e bs (losses + update_loss \<epsilon> ?g b) ?st = Inr (losses', st')"
    by (simp add: Let_def)
  from Cons.IH[OF this] obtain us where
    h: "dev_score_history st' = dev_score_history ?st" "current_lr st' = current_lr ?st"
       "global_step st' = global_step ?st + int (length bs)"
       "trace st' = trace ?st @ us" "list_all quiet us"
    by blast
  show ?case
  proof (intro conjI)
    show "dev_score_history st' = dev_score_history st" using h(1) by simp
    show "current_lr st' = current_lr st" using h(2) by simp
    show "global_step st' = global_step st + int (length (b # bs))" using h(3) by simp
    show "\<exists>us. trace st' = trace st @ us \<and> list_all quiet us"
    proof (cases "?g mod log_step a = 0")
      case True
      then have "trace st' = trace st @ ([Update b, Print (StepLog ?g ms e (num_epoch a) (update_loss \<epsilon> ?g b) (current_lr st))] @ us)"
        using h(4) by simp
      moreover have "list_all quiet ([Update b, Print (StepLog ?g ms e (num_epoch a) (update_loss \<epsilon> ?g b) (current_lr st))] @ us)"
        using h(5) by simp
      ultimately show ?thesis by blast
    next
      case False
      then have "trace st' = trace st @ ([Update b] @ us)" using h(4) by simp
      moreover have "list_all quiet ([Update b] @ us)" using h(5) by simp
      ultimately show ?thesis by blast
    qed
  qed
qed

lemma update_loop_Inl:
  "update_loop a \<epsilon> ms e bs losses st = Inl (err, tr) \<Longrightarrow>
     err = ZeroDivisionError \<and> log_step a = 0 \<and> (\<exists>us. tr = trace st @ us \<and> list_all quiet us)"
proof (induction bs arbitrary: losses st)
  case Nil
  then show ?case by simp
next
  case (Cons b bs)
  show ?case
  proof (cases "log_step a = 0")
    case True
    with Cons.prems have "err = ZeroDivisionError" "tr = trace st @ [Update b]"
      by (simp_all add: Let_def)
    moreover have "list_all quiet [Update b]" by simp
    ultimately show ?thesis using True by blast
  next
    case False
    let ?g = "global_step st + 1"
    let ?tr = "trace st @ [Update b]"
    let ?st = "st\<lparr>global_step := ?g,
                 trace := (if ?g mod log_step a = 0
                           then ?tr @ [Print (StepLog ?g ms e (num_epoch a) (update_loss \<epsilon> ?g b) (current_lr st))]
                           else ?tr)\<rparr>"
    from Cons.prems False have "update_loop a \<epsilon> ms e bs (losses + update_loss \<epsilon> ?g b) ?st = Inl (err, tr)"
      by (simp add: Let_def)
    from Cons.IH[OF this] have "log_step a = 0" by blast
    with False show ?thesis by simp
  qed
qed

lemma update_loop_ok:
  "log_step a \<noteq> 0 \<Longrightarrow> \<exists>losses' st'. update_loop a \<epsilon> ms e bs losses st = Inr (losses', st')"
  by (induction bs arbitrary: losses st) (simp_all add: Let_def)

lemma update_loop_zero:
  "log_step a = 0 \<Longrightarrow> bs \<noteq> [] \<Longrightarrow> \<exists>tr. update_loop a \<epsilon> ms e bs losses st = Inl (ZeroDivisionError, tr)"
  by (cases bs) (simp_all add: Let_def)

subsection \<open>The two decisions and one iteration\<close>

lemma checkpoint_decision_Inr:
  assumes "checkpoint_decision a epoch d st = Inr st'"
  shows "(epoch \<noteq> 1 \<longrightarrow> dev_score_history st \<noteq> []) \<and>
         st' = st\<lparr>trace := trace st @
                    (if epoch = 1 \<or> d > Max (set (dev_score_history st))
                     then [TrainerSave (save_name a), Print NewBestSaved] else [])\<rparr>"
proof (cases "epoch = 1")
  case True
  with assms show ?thesis by (auto simp: checkpoint_decision_def Let_def)
next
  case False
  show ?thesis
  proof (cases "dev_score_history st = []")
    case True
    with assms False show ?thesis by (simp add: checkpoint_decision_def Let_def)
  next
    case ne: False
    from assms False show ?thesis
      by (auto simp: checkpoint_decision_def Let_def py_max_Max[OF ne] ne split: if_splits)
  qed
qed

lemma checkpoint_decision_Inl:
  assumes "checkpoint_decision a epoch d st = Inl (err, tr)"
  shows "epoch \<noteq> 1 \<and> dev_score_history st = [] \<and> err = ValueError \<and> tr = trace st"
proof (cases "dev_score_history st = []")
  case True
  with assms show ?thesis by (simp add: checkpoint_decision_def Let_def split: if_splits)
next
  case ne: False
  from assms have False
    by (simp add: checkpoint_decision_def Let_def py_max_Max[OF ne] split: if_splits)
  then show ?thesis ..
qed

lemma lr_decision_Inr:
  assumes "lr_decision a epoch d st = Inr st'"
  shows "(int epoch > decay_epoch a \<longrightarrow> dev_score_history st \<noteq> []) \<and>
         st' = (if int epoch > decay_epoch a \<and> d \<le> last (dev_score_history st)
                then st\<lparr>current_lr := current_lr st * lr_decay a,
                        trace := trace st @ [ChangeLr (current_lr st * lr_decay a)]\<rparr>
                else st)"
  using assms by (auto simp: lr_decision_def Let_def split: if_splits list.splits)

lemma lr_decision_Inl:
  assumes "lr_decision a epoch d st = Inl (err, tr)"
  shows "int epoch > decay_epoch a \<and> dev_score_history st = [] \<and> err = IndexError \<and> tr = trace st"
  using assms by (auto simp: lr_decision_def Let_def split: if_splits list.splits)


lemma epoch_body_Inr:
  assumes "epoch_body a \<epsilon> tb db sys gold ms epoch st = Inr st'"
  shows "\<exists>us. list_all quiet us \<and>
           trace st' = trace st @ us
              @ save_events a epoch (dev_f \<epsilon> db epoch) (dev_score_history st)
              @ lr_events a epoch (dev_f \<epsilon> db epoch) (dev_score_history st) (current_lr st)
              @ [Print EmptyLine]"
    and "dev_score_history st' = dev_score_history st @ [dev_f \<epsilon> db epoch]"
    and "current_lr st' =
           (if int epoch > decay_epoch a \<and> dev_f \<epsilon> db epoch \<le> last (dev_score_history st)
            then current_lr st * lr_decay a else current_lr st)"
    and "global_step st' = global_step st + int (length (batches tb))"
    and "epoch \<noteq> 1 \<Longrightarrow> dev_score_history st \<noteq> []"
    and "int epoch > decay_epoch a \<Longrightarrow> dev_score_history st \<noteq> []"
proof -
  let ?d = "dev_f \<epsilon> db epoch"
  obtain tl1 st1 where u: "update_loop a \<epsilon> ms epoch (batches tb) 0 st = Inr (tl1, st1)"
    using assms by (auto simp: epoch_body_def split: sum.splits)
  from update_loop_Inr[OF u] obtain us where
    s1: "dev_score_history st1 = dev_score_history st" "current_lr st1 = current_lr st"
        "global_step st1 = global_step st + int (length (batches tb))"
        "trace st1 = trace st @ us" "list_all quiet us"
    by blast
  have nz: "num_examples tb \<noteq> 0"
    using assms u by (auto simp: epoch_body_def Let_def split: if_splits)
  let ?tl = "tl1 / real_of_int (num_examples tb) * real_of_int (batch_size a)"
  let ?mid = "[Print EvaluatingDev] @ map Predict (batches db)
              @ [WriteConll (dev_preds_of \<epsilon> db epoch) sys, Score sys gold]
              @ [Print (EpochLog epoch ?tl ?d)]"
  let ?st3 = "st1\<lparr>trace := trace st1 @ ?mid\<rparr>"
  have q: "list_all quiet ?mid" by (simp add: list_all_iff)
  obtain st4 where c: "checkpoint_decision a epoch ?d ?st3 = Inr st4"
    using assms u nz by (auto simp: epoch_body_def Let_def split: sum.splits)
  obtain st5 where l: "lr_decision a epoch ?d st4 = Inr st5"
    using assms u nz c by (auto simp: epoch_body_def Let_def split: sum.splits)
  have fin: "st' = st5\<lparr>dev_score_history := dev_score_history st5 @ [?d],
                         trace := trace st5 @ [Print EmptyLine]\<rparr>"
    using assms u nz c l by (simp add: epoch_body_def Let_def)
  from checkpoint_decision_Inr[OF c] have
    c1: "epoch \<noteq> 1 \<longrightarrow> dev_score_history st \<noteq> []"
    and c2: "st4 = ?st3\<lparr>trace := trace ?st3 @ save_events a epoch ?d (dev_score_history st)\<rparr>"
    by (simp_all add: s1 save_events_def)
  have h4: "dev_score_history st4 = dev_score_history st" "current_lr st4 = current_lr st"
     "global_step st4 = global_step st + int (length (batches tb))"
    by (simp_all add: c2 s1)
  from lr_decision_Inr[OF l] have
    l1: "int epoch > decay_epoch a \<longrightarrow> dev_score_history st \<noteq> []"
    and l2: "st5 = (if int epoch > decay_epoch a \<and> ?d \<le> last (dev_score_history st)
                then st4\<lparr>current_lr := current_lr st * lr_decay a,
                        trace := trace st4 @ [ChangeLr (current_lr st * lr_decay a)]\<rparr>
                else st4)"
    by (simp_all add: h4)
  have t5: "trace st5 = trace st4 @ lr_events a epoch ?d (dev_score_history st) (current_lr st)"
    by (simp add: l2 lr_events_def)
  have "trace st' = trace st @ (us @ ?mid)
              @ save_events a epoch ?d (dev_score_history st)
              @ lr_events a epoch ?d (dev_score_history st) (current_lr st)
              @ [Print EmptyLine]"
    by (simp add: fin t5 c2 s1)
  moreover have "list_all quiet (us @ ?mid)" using s1(5) q by simp
  ultimately show "\<exists>us. list_all quiet us \<and>
           trace st' = trace st @ us
              @ save_events a epoch (dev_f \<epsilon> db epoch) (dev_score_history st)
              @ lr_events a epoch (dev_f \<epsilon> db epoch) (dev_score_history st) (current_lr st)
              @ [Print EmptyLine]"
    by blast
  show "dev_score_history st' = dev_score_history st @ [?d]"
    by (simp add: fin l2 h4)
  show "current_lr st' =
           (if int epoch > decay_epoch a \<and> ?d \<le> last (dev_score_history st)
            then current_lr st * lr_decay a else current_lr st)"
    by (simp add: fin l2 h4)
  show "global_step st' = global_step st + int (length (batches tb))"
    by (simp add: fin l2 h4)
  show "epoch \<noteq> 1 \<Longrightarrow> dev_score_history st \<noteq> []" using c1 by simp
  show "int epoch > decay_epoch a \<Longrightarrow> dev_score_history st \<noteq> []" using l1 by simp
qed

subsection \<open>The epoch loop\<close>

lemma quiet_filters:
  "list_all quiet us \<Longrightarrow> filter is_save us = [] \<and> filter is_change_lr us = []"
proof (induction us)
  case Nil
  then show ?case by simp
next
  case (Cons u us)
  then show ?case by (cases u) simp_all
qed

lemma epoch_body_ok:
  assumes "log_step a \<noteq> 0" "num_examples tb \<noteq> 0"
      and "epoch = 1 \<or> dev_score_history st \<noteq> []"
      and "int epoch \<le> decay_epoch a \<or> dev_score_history st \<noteq> []"
  shows "\<exists>st'. epoch_body a \<epsilon> tb db sys gold ms epoch st = Inr st'"
proof -
  obtain tl1 st1 where u: "update_loop a \<epsilon> ms epoch (batches tb) 0 st = Inr (tl1, st1)"
    using update_loop_ok[OF assms(1)] by blast
  have h1: "dev_score_history st1 = dev_score_history st"
    using update_loop_Inr[OF u] by simp
  let ?d = "dev_f \<epsilon> db epoch"
  let ?tl = "tl1 / real_of_int (num_examples tb) * real_of_int (batch_size a)"
  let ?st3 = "st1\<lparr>trace := (trace st1 @ [Print EvaluatingDev] @ map Predict (batches db)
              @ [WriteConll (dev_preds_of \<epsilon> db epoch) sys, Score sys gold])
              @ [Print (EpochLog epoch ?tl ?d)]\<rparr>"
  have "\<exists>st4. checkpoint_decision a epoch ?d ?st3 = Inr st4"
  proof (cases "epoch = 1")
    case True
    then show ?thesis by (simp add: checkpoint_decision_def Let_def)
  next
    case False
    with assms(3) have ne: "dev_score_history st1 \<noteq> []" by (simp add: h1)
    show ?thesis using False
      by (simp add: checkpoint_decision_def Let_def py_max_Max[OF ne])
  qed
  then obtain st4 where c: "checkpoint_decision a epoch ?d ?st3 = Inr st4" ..
  have h4: "dev_score_history st4 = dev_score_history st"
    using checkpoint_decision_Inr[OF c] h1 by (auto split: if_splits)
  have "\<exists>st5. lr_decision a epoch ?d st4 = Inr st5"
    using assms(4) h4 by (auto simp: lr_decision_def Let_def split: list.splits)
  then obtain st5 where l: "lr_decision a epoch ?d st4 = Inr st5" ..
  show ?thesis using u assms(2) c l by (simp add: epoch_body_def Let_def)
qed

lemma epoch_body_Inl:
  assumes "epoch_body a \<epsilon> tb db sys gold ms epoch st = Inl (err, tr)"
  shows "\<exists>us. tr = trace st @ us \<and> list_all (\<lambda>e. quiet e \<or> is_save e) us"
    and "err = IndexError \<Longrightarrow> int epoch > decay_epoch a \<and> dev_score_history st = []"
proof -
  let ?d = "dev_f \<epsilon> db epoch"
  have "(\<exists>us. tr = trace st @ us \<and> list_all (\<lambda>e. quiet e \<or> is_save e) us) \<and>
        (err = IndexError \<longrightarrow> int epoch > decay_epoch a \<and> dev_score_history st = [])"
  proof (cases "update_loop a \<epsilon> ms epoch (batches tb) 0 st")
    case (Inl p)
    with assms have p: "p = (err, tr)" by (simp add: epoch_body_def)
    from update_loop_Inl[OF Inl[unfolded p]] obtain us where
      "err = ZeroDivisionError" "tr = trace st @ us" "list_all quiet us" by blast
    moreover from this have "list_all (\<lambda>e. quiet e \<or> is_save e) us"
      by (simp add: list_all_iff)
    ultimately show ?thesis by blast
  next
    case (Inr q)
    obtain tl1 st1 where q: "q = (tl1, st1)" by (cases q)
    note u = Inr[unfolded q]
    from update_loop_Inr[OF u] obtain us where
      s1: "dev_score_history st1 = dev_score_history st"
          "trace st1 = trace st @ us" "list_all quiet us"
      by blast
    let ?pre = "[Print EvaluatingDev] @ map Predict (batches db)
              @ [WriteConll (dev_preds_of \<epsilon> db epoch) sys, Score sys gold]"
    have qpre: "list_all quiet ?pre" by (simp add: list_all_iff)
    show ?thesis
    proof (cases "num_examples tb = 0")
      case True
      with assms u have "err = ZeroDivisionError" "tr = trace st @ (us @ ?pre)"
        by (simp_all add: epoch_body_def Let_def s1)
      moreover have "list_all (\<lambda>e. quiet e \<or> is_save e) (us @ ?pre)"
        using s1(3) by (auto simp: list_all_iff)
      ultimately show ?thesis by blast
    next
      case nz: False
      let ?tl = "tl1 / real_of_int (num_examples tb) * real_of_int (batch_size a)"
      let ?mid = "?pre @ [Print (EpochLog epoch ?tl ?d)]"
      let ?st3 = "st1\<lparr>trace := trace st1 @ ?mid\<rparr>"
      have qmid: "list_all (\<lambda>e. quiet e \<or> is_save e) (us @ ?mid)"
        using s1(3) by (auto simp: list_all_iff)
      show ?thesis
      proof (cases "checkpoint_decision a epoch ?d ?st3")
        case (Inl p)
        with assms u nz have p: "p = (err, tr)" by (simp add: epoch_body_def Let_def)
        from checkpoint_decision_Inl[OF Inl[unfolded p]]
        have "err = ValueError" "tr = trace st @ (us @ ?mid)" by (simp_all add: s1)
        with qmid show ?thesis by blast
      next
        case (Inr st4)
        from checkpoint_decision_Inr[OF Inr] have
          c2: "st4 = ?st3\<lparr>trace := trace ?st3 @ save_events a epoch ?d (dev_score_history st)\<rparr>"
          by (simp add: s1 save_events_def)
        have l: "lr_decision a epoch ?d st4 = Inl (err, tr)"
          using assms u nz Inr by (simp add: epoch_body_def Let_def split: sum.splits)
        from lr_decision_Inl[OF l] have
          r: "int epoch > decay_epoch a" "dev_score_history st = []" "err = IndexError"
             "tr = trace st @ ((us @ ?mid) @ save_events a epoch ?d (dev_score_history st))"
          by (simp_all add: c2 s1)
        have "list_all (\<lambda>e. quiet e \<or> is_save e)
                 ((us @ ?mid) @ save_events a epoch ?d (dev_score_history st))"
          using qmid by (simp add: save_events_def)
        with r show ?thesis by blast
      qed
    qed
  qed
  then show "\<exists>us. tr = trace st @ us \<and> list_all (\<lambda>e. quiet e \<or> is_save e) us"
    and "err = IndexError \<Longrightarrow> int epoch > decay_epoch a \<and> dev_score_history st = []"
    by blast+
qed

lemma epoch_loop_Suc_Inr:
  assumes "epoch_loop a \<epsilon> tb db sys gold ms st0 (Suc k) = Inr st'"
  obtains st where "epoch_loop a \<epsilon> tb db sys gold ms st0 k = Inr st"
    and "epoch_body a \<epsilon> tb db sys gold ms (Suc k) st = Inr st'"
  using assms by (auto split: sum.splits)

lemma epoch_loop_history:
  "epoch_loop a \<epsilon> tb db sys gold ms st0 k = Inr st \<Longrightarrow>
     dev_score_history st = dev_score_history st0 @ map (dev_f \<epsilon> db) [1..<Suc k]"
proof (induction k arbitrary: st)
  case 0
  then show ?case by simp
next
  case (Suc k)
  from Suc.prems obtain s where s: "epoch_loop a \<epsilon> tb db sys gold ms st0 k = Inr s"
    and b: "epoch_body a \<epsilon> tb db sys gold ms (Suc k) s = Inr st"
    by (rule epoch_loop_Suc_Inr)
  from epoch_body_Inr(2)[OF b] Suc.IH[OF s] show ?case by simp
qed

lemma epoch_loop_prefix:
  "epoch_loop a \<epsilon> tb db sys gold ms st0 k = Inr st \<Longrightarrow> j \<le> k \<Longrightarrow>
     \<exists>s. epoch_loop a \<epsilon> tb db sys gold ms st0 j = Inr s"
proof (induction k arbitrary: st)
  case 0
  then show ?case by simp
next
  case (Suc k)
  from Suc.prems(1) obtain s where s: "epoch_loop a \<epsilon> tb db sys gold ms st0 k = Inr s"
    by (rule epoch_loop_Suc_Inr)
  show ?case
  proof (cases "j = Suc k")
    case True
    with Suc.prems(1) show ?thesis by blast
  next
    case False
    with Suc.prems(2) have "j \<le> k" by simp
    from Suc.IH[OF s this] show ?thesis .
  qed
qed

lemma epoch_loop_total:
  assumes "log_step a \<noteq> 0" "num_examples tb \<noteq> 0" "1 \<le> decay_epoch a"
      and "dev_score_history st0 = []"
  shows "\<exists>st. epoch_loop a \<epsilon> tb db sys gold ms st0 k = Inr st"
proof (induction k)
  case 0
  show ?case by simp
next
  case (Suc k)
  then obtain s where s: "epoch_loop a \<epsilon> tb db sys gold ms st0 k = Inr s" ..
  have h: "dev_score_history s = map (dev_f \<epsilon> db) [1..<Suc k]"
    using epoch_loop_history[OF s] assms(4) by simp
  have 1: "Suc k = 1 \<or> dev_score_history s \<noteq> []" using h by (cases k) simp_all
  have 2: "int (Suc k) \<le> decay_epoch a \<or> dev_score_history s \<noteq> []"
    using h assms(3) by (cases k) simp_all
  from epoch_body_ok[OF assms(1,2) 1 2] s show ?case by simp
qed

lemma epoch_loop_IndexError:
  assumes "epoch_loop a \<epsilon> tb db sys gold ms st0 k = Inl (IndexError, tr)"
      and "dev_score_history st0 = []"
  shows "decay_epoch a \<le> 0"
  using assms(1)
proof (induction k)
  case 0
  then show ?case by simp
next
  case (Suc k)
  show ?case
  proof (cases "epoch_loop a \<epsilon> tb db sys gold ms st0 k")
    case (Inl p)
    with Suc.prems have "epoch_loop a \<epsilon> tb db sys gold ms st0 k = Inl (IndexError, tr)" by simp
    then show ?thesis by (rule Suc.IH)
  next
    case (Inr s)
    with Suc.prems have b: "epoch_body a \<epsilon> tb db sys gold ms (Suc k) s = Inl (IndexError, tr)"
      by simp
    from epoch_body_Inl(2)[OF b] have d: "int (Suc k) > decay_epoch a" and e: "dev_score_history s = []"
      by simp_all
    have "length (dev_score_history s) = k"
      using epoch_loop_history[OF Inr] assms(2) by simp
    with e have "k = 0" by simp
    with d show ?thesis by simp
  qed
qed

lemma epoch_loop_first_IndexError:
  assumes "decay_epoch a \<le> 0" "log_step a \<noteq> 0" "num_examples tb \<noteq> 0"
      and "dev_score_history st0 = []"
  shows "\<exists>tr. epoch_loop a \<epsilon> tb db sys gold ms st0 (Suc k) = Inl (IndexError, tr)"
proof (induction k)
  case 0
  obtain tl1 st1 where u: "update_loop a \<epsilon> ms 1 (batches tb) 0 st0 = Inr (tl1, st1)"
    using update_loop_ok[OF assms(2)] by blast
  have h1: "dev_score_history st1 = []"
    using update_loop_Inr[OF u] assms(4) by simp
  show ?case
    using u assms(1,3) h1
    by (simp add: epoch_body_def Let_def checkpoint_decision_def lr_decision_def)
next
  case (Suc k)
  then show ?case by auto
qed

subsection \<open>The concrete run, evaluated\<close>

lemma demo_sel:
  "update_loss demo_env g b = 1" "batches demo_dev = [0]" "batches demo_train = [0, 1]"
  "num_examples demo_train = 80"
  "dev_preds_of demo_env demo_dev (Suc 0) = [''a'']" "dev_preds_of demo_env demo_dev 2 = [''b'']"
  "dev_preds_of demo_env demo_dev 3 = [''a'']" "float_mul demo_env x y = x * y"
  by (simp_all add: demo_env_def demo_dev_def demo_train_def dev_preds_of_def)

lemma demo_dev_f:
  "dev_f demo_env demo_dev (Suc 0) = 1 / 2" "dev_f demo_env demo_dev 2 = 3 / 10"
  "dev_f demo_env demo_dev 3 = 1 / 2"
  by (simp_all add: dev_f_def dev_preds_of_def demo_env_def demo_dev_def)

lemma demo_eff_sel:
  "log_step demo_eff = 2" "num_epoch demo_eff = 3" "batch_size demo_eff = 50"
  "decay_epoch demo_eff = 1" "lr_decay demo_eff = 9 / 10" "lr demo_eff = 1 / 1000"
  "save_name demo_eff = Some ''saved/fr.pt''" "dict_only demo_eff = False"
  by (simp_all add: demo_eff_def demo_args_def)

lemma demo_body1:
  "epoch_body demo_eff demo_env demo_train demo_dev ''data/out.conllu'' (Some ''gold.conllu'') 6
     (Suc 0) demo_st0 = Inr demo_st1"
  by (simp add: epoch_body_def Let_def demo_st0_def demo_st1_def checkpoint_decision_def
      lr_decision_def demo_dev_f demo_trace1_def demo_sel demo_eff_sel)

lemma demo_body2:
  "epoch_body demo_eff demo_env demo_train demo_dev ''data/out.conllu'' (Some ''gold.conllu'') 6
     2 demo_st1 = Inr demo_st2"
  by (simp add: epoch_body_def Let_def demo_st1_def demo_st2_def checkpoint_decision_def
      lr_decision_def demo_dev_f demo_trace2_def demo_sel demo_eff_sel)

lemma demo_body3:
  "epoch_body demo_eff demo_env demo_train demo_dev ''data/out.conllu'' (Some ''gold.conllu'') 6
     3 demo_st2 = Inr demo_st3"
  by (simp add: epoch_body_def Let_def demo_st2_def demo_st3_def checkpoint_decision_def
      lr_decision_def demo_dev_f demo_trace3_def demo_sel demo_eff_sel)

lemma demo_loop:
  "epoch_loop demo_eff demo_env demo_train demo_dev ''data/out.conllu'' (Some ''gold.conllu'') 6
     demo_st0 0 = Inr demo_st0"
  "epoch_loop demo_eff demo_env demo_train demo_dev ''data/out.conllu'' (Some ''gold.conllu'') 6
     demo_st0 (Suc 0) = Inr demo_st1"
  "epoch_loop demo_eff demo_env demo_train demo_dev ''data/out.conllu'' (Some ''gold.conllu'') 6
     demo_st0 2 = Inr demo_st2"
  "epoch_loop demo_eff demo_env demo_train demo_dev ''data/out.conllu'' (Some ''gold.conllu'') 6
     demo_st0 3 = Inr demo_st3"
  using demo_body1 demo_body2 demo_body3
  by (simp_all add: eval_nat_numeral)

lemma demo_effective: "effective_args demo_args demo_env = demo_eff"
  by (simp add: effective_args_def resolved_def with_vocab_def train_loader_def model_file_of_def
      demo_args_def demo_env_def demo_train_def demo_eff_def)

lemma demo_loaders:
  "train_loader demo_args demo_env = demo_train" "dev_loader demo_args demo_env = demo_dev"
  by (simp_all add: train_loader_def dev_loader_def demo_args_def demo_env_def)

lemma demo_train_run:
  "train demo_args demo_env =
     (Returned, demo_prefix @ demo_trace1 @ demo_trace2 @ demo_trace3
                @ [Print (TrainingEnded 3), Print (BestDev 50 1),
                   ParamUpdate (Some ''fr'') demo_eff 50])"
proof -
  have "train_seq2seq demo_eff demo_env (Some ''fr'') demo_train demo_dev ''data/out.conllu''
          (Some ''gold.conllu'')
          [Print (LoadingData ''data'' 50), SaveConfig demo_eff ''saved/fr_config.json''] =
     (Returned, demo_prefix @ demo_trace1 @ demo_trace2 @ demo_trace3
                @ [Print (TrainingEnded 3), Print (BestDev 50 1),
                   ParamUpdate (Some ''fr'') demo_eff 50])"
    using demo_loop(4)
    by (simp add: train_seq2seq_def Let_def demo_sel demo_eff_sel demo_st0_def demo_prefix_def
        demo_train_def demo_st3_def)
  moreover have "config_file_of demo_eff = ''saved/fr_config.json''"
    by (simp add: config_file_of_def demo_eff_def demo_args_def)
  moreover have "output_file demo_args = Some ''out.conllu''" "data_dir demo_args = ''data''"
    "gold_file demo_args = Some ''gold.conllu''" "batch_size demo_args = 50"
    "lang demo_args = Some ''fr''"
    by (simp_all add: demo_args_def)
  ultimately show ?thesis
    by (simp add: train_def Let_def demo_effective demo_loaders demo_sel demo_eff_sel)
qed

section \<open>The claims\<close>

lemma history_set:
  assumes "dev_score_history st0 = []"
      and "epoch_loop a \<epsilon> tb db sys gold ms st0 k = Inr st"
  shows "set (dev_score_history st) = dev_f \<epsilon> db ` {1..k}"
proof -
  have "set [1..<Suc k] = {1..k}" by auto
  then show ?thesis using epoch_loop_history[OF assms(2)] assms(1) by simp
qed

lemma filter_save_events:
  "filter is_save (save_events a epoch d h) =
     (if epoch = 1 \<or> d > Max (set h) then [TrainerSave (save_name a)] else [])"
  "filter is_change_lr (save_events a epoch d h) = []"
  by (simp_all add: save_events_def)

lemma filter_lr_events:
  "filter is_save (lr_events a epoch d h r) = []"
  "filter is_change_lr (lr_events a epoch d h r) =
     (if int epoch > decay_epoch a \<and> d \<le> last h then [ChangeLr (r * lr_decay a)] else [])"
  by (simp_all add: lr_events_def)

text \<open>
  C1. In the seq2seq training loop, the iteration of epoch \<open>k + 1\<close>, started in the state
  \<open>st\<close> that the first \<open>k\<close> epochs left, calls \<^verbatim>\<open>trainer.save\<close> exactly once if \<open>k = 0\<close>
  (the first epoch) or the dev score of the epoch is strictly greater than the maximum of
  the scores recorded so far, which are those of the epochs \<open>1\<close> to \<open>k\<close>; otherwise it
  does not call it. A score equal to the previous maximum therefore saves nothing.
\<close>

theorem checkpoint_saved_iff:
  assumes "dev_score_history st0 = []"
      and "epoch_loop a \<epsilon> tb db sys gold ms st0 k = Inr st"
      and "epoch_body a \<epsilon> tb db sys gold ms (Suc k) st = Inr st'"
  shows "set (dev_score_history st) = dev_f \<epsilon> db ` {1..k} \<and>
         (\<exists>new. trace st' = trace st @ new \<and>
            filter is_save new =
              (if k = 0 \<or> Max (set (dev_score_history st)) < dev_f \<epsilon> db (Suc k)
               then [TrainerSave (save_name a)] else []))"
proof -
  let ?d = "dev_f \<epsilon> db (Suc k)"
  from epoch_body_Inr(1)[OF assms(3)] obtain us where
    q: "list_all quiet us" and
    t: "trace st' = trace st @ us @ save_events a (Suc k) ?d (dev_score_history st)
          @ lr_events a (Suc k) ?d (dev_score_history st) (current_lr st) @ [Print EmptyLine]"
    by blast
  let ?new = "us @ save_events a (Suc k) ?d (dev_score_history st)
          @ lr_events a (Suc k) ?d (dev_score_history st) (current_lr st) @ [Print EmptyLine]"
  have "filter is_save ?new =
          (if k = 0 \<or> Max (set (dev_score_history st)) < ?d
           then [TrainerSave (save_name a)] else [])"
    using quiet_filters[OF q] by (simp add: filter_save_events filter_lr_events)
  with t have "\<exists>new. trace st' = trace st @ new \<and>
            filter is_save new =
              (if k = 0 \<or> Max (set (dev_score_history st)) < ?d
               then [TrainerSave (save_name a)] else [])"
    by blast
  with history_set[OF assms(1,2)] show ?thesis by blast
qed

text \<open>In the concrete run, epoch 3 ties with the best score so far (0.5) and saves nothing.\<close>

theorem checkpoint_saved_iff_witness:
  "dev_score_history demo_st0 = [] \<and>
   epoch_loop demo_eff demo_env demo_train demo_dev ''data/out.conllu'' (Some ''gold.conllu'') 6
     demo_st0 2 = Inr demo_st2 \<and>
   epoch_body demo_eff demo_env demo_train demo_dev ''data/out.conllu'' (Some ''gold.conllu'') 6
     3 demo_st2 = Inr demo_st3 \<and>
   set (dev_score_history demo_st2) = {1 / 2, 3 / 10} \<and>
   dev_f demo_env demo_dev 3 = 1 / 2 \<and>
   (\<exists>new. trace demo_st3 = trace demo_st2 @ new \<and> filter is_save new = [])"
proof -
  have h1: "dev_score_history demo_st0 = []" by (simp add: demo_st0_def)
  have h3: "epoch_body demo_eff demo_env demo_train demo_dev ''data/out.conllu''
              (Some ''gold.conllu'') 6 (Suc 2) demo_st2 = Inr demo_st3"
    using demo_body3 by (simp add: eval_nat_numeral)
  have m: "Max (set (dev_score_history demo_st2)) = 1 / 2"
    by (simp add: demo_st2_def)
  from checkpoint_saved_iff[OF h1 demo_loop(3) h3]
  have "\<exists>new. trace demo_st3 = trace demo_st2 @ new \<and> filter is_save new = []"
    by (simp add: m demo_dev_f eval_nat_numeral[symmetric] del: One_nat_def)
  then show ?thesis
    using h1 demo_loop(3) demo_body3 by (simp add: demo_dev_f demo_st2_def)
qed

text \<open>
  C2. The iteration of epoch \<open>k + 1\<close> multiplies the learning rate by \<open>lr_decay\<close> and
  hands it to the trainer (\<^verbatim>\<open>change_lr\<close>, once) if the epoch index is strictly greater
  than \<open>decay_epoch\<close> and the dev score of the epoch is at most the last entry of the
  history, which is then the score of epoch \<open>k\<close> and not the maximum; otherwise the
  learning rate stays and \<^verbatim>\<open>change_lr\<close> is not called.
\<close>

theorem lr_decay_iff:
  assumes "dev_score_history st0 = []"
      and "epoch_loop a \<epsilon> tb db sys gold ms st0 k = Inr st"
      and "epoch_body a \<epsilon> tb db sys gold ms (Suc k) st = Inr st'"
  shows "(decay_epoch a < int (Suc k) \<longrightarrow>
            dev_score_history st \<noteq> [] \<and> last (dev_score_history st) = dev_f \<epsilon> db k) \<and>
         (\<exists>new. trace st' = trace st @ new \<and>
            filter is_change_lr new =
              (if decay_epoch a < int (Suc k) \<and> dev_f \<epsilon> db (Suc k) \<le> last (dev_score_history st)
               then [ChangeLr (current_lr st * lr_decay a)] else [])) \<and>
         current_lr st' =
           (if decay_epoch a < int (Suc k) \<and> dev_f \<epsilon> db (Suc k) \<le> last (dev_score_history st)
            then current_lr st * lr_decay a else current_lr st)"
proof -
  let ?d = "dev_f \<epsilon> db (Suc k)"
  have h: "dev_score_history st = map (dev_f \<epsilon> db) [1..<Suc k]"
    using epoch_loop_history[OF assms(2)] assms(1) by simp
  have 1: "decay_epoch a < int (Suc k) \<longrightarrow>
            dev_score_history st \<noteq> [] \<and> last (dev_score_history st) = dev_f \<epsilon> db k"
  proof
    assume "decay_epoch a < int (Suc k)"
    then have ne: "dev_score_history st \<noteq> []" by (rule epoch_body_Inr(6)[OF assms(3)])
    with h have "1 \<le> k" by (cases k) simp_all
    then have "[1..<Suc k] = [1..<k] @ [k]" by simp
    with h have "last (dev_score_history st) = dev_f \<epsilon> db k" by simp
    with ne show "dev_score_history st \<noteq> [] \<and> last (dev_score_history st) = dev_f \<epsilon> db k"
      by simp
  qed
  from epoch_body_Inr(1)[OF assms(3)] obtain us where
    q: "list_all quiet us" and
    t: "trace st' = trace st @ us @ save_events a (Suc k) ?d (dev_score_history st)
          @ lr_events a (Suc k) ?d (dev_score_history st) (current_lr st) @ [Print EmptyLine]"
    by blast
  let ?new = "us @ save_events a (Suc k) ?d (dev_score_history st)
          @ lr_events a (Suc k) ?d (dev_score_history st) (current_lr st) @ [Print EmptyLine]"
  have "filter is_change_lr ?new =
          (if decay_epoch a < int (Suc k) \<and> ?d \<le> last (dev_score_history st)
           then [ChangeLr (current_lr st * lr_decay a)] else [])"
    using quiet_filters[OF q] by (simp add: filter_save_events filter_lr_events)
  with t have 2: "\<exists>new. trace st' = trace st @ new \<and>
            filter is_change_lr new =
              (if decay_epoch a < int (Suc k) \<and> ?d \<le> last (dev_score_history st)
               then [ChangeLr (current_lr st * lr_decay a)] else [])"
    by blast
  from 1 2 epoch_body_Inr(3)[OF assms(3)] show ?thesis by blast
qed

text \<open>In the concrete run (decay from epoch 2 on) epoch 2 scores 0.3 after 0.5 and decays
  the rate; epoch 3 scores 0.5 after 0.3 and does not, although 0.5 does not exceed the
  maximum so far.\<close>

theorem lr_decay_iff_witness:
  "dev_score_history demo_st0 = [] \<and>
   epoch_loop demo_eff demo_env demo_train demo_dev ''data/out.conllu'' (Some ''gold.conllu'') 6
     demo_st0 (Suc 0) = Inr demo_st1 \<and>
   epoch_body demo_eff demo_env demo_train demo_dev ''data/out.conllu'' (Some ''gold.conllu'') 6
     2 demo_st1 = Inr demo_st2 \<and>
   (\<exists>new. trace demo_st2 = trace demo_st1 @ new \<and> filter is_change_lr new = [ChangeLr (9 / 10000)]) \<and>
   current_lr demo_st1 = 1 / 1000 \<and> current_lr demo_st2 = 9 / 10000 \<and>
   epoch_loop demo_eff demo_env demo_train demo_dev ''data/out.conllu'' (Some ''gold.conllu'') 6
     demo_st0 2 = Inr demo_st2 \<and>
   epoch_body demo_eff demo_env demo_train demo_dev ''data/out.conllu'' (Some ''gold.conllu'') 6
     3 demo_st2 = Inr demo_st3 \<and>
   (\<exists>new. trace demo_st3 = trace demo_st2 @ new \<and> filter is_change_lr new = []) \<and>
   current_lr demo_st3 = 9 / 10000"
proof -
  have h1: "dev_score_history demo_st0 = []" by (simp add: demo_st0_def)
  have b2: "epoch_body demo_eff demo_env demo_train demo_dev ''data/out.conllu''
              (Some ''gold.conllu'') 6 (Suc (Suc 0)) demo_st1 = Inr demo_st2"
    using demo_body2 by (simp add: eval_nat_numeral)
  have b3: "epoch_body demo_eff demo_env demo_train demo_dev ''data/out.conllu''
              (Some ''gold.conllu'') 6 (Suc 2) demo_st2 = Inr demo_st3"
    using demo_body3 by (simp add: eval_nat_numeral)
  have l1: "last (dev_score_history demo_st1) = 1 / 2" "current_lr demo_st1 = 1 / 1000"
    by (simp_all add: demo_st1_def)
  have l2: "last (dev_score_history demo_st2) = 3 / 10" "current_lr demo_st2 = 9 / 10000"
    by (simp_all add: demo_st2_def)
  have d2: "dev_f demo_env demo_dev (Suc (Suc 0)) = 3 / 10" "dev_f demo_env demo_dev (Suc 2) = 1 / 2"
    using demo_dev_f by (simp_all add: eval_nat_numeral)
  from lr_decay_iff[OF h1 demo_loop(2) b2]
  have e2: "\<exists>new. trace demo_st2 = trace demo_st1 @ new \<and>
                filter is_change_lr new = [ChangeLr (9 / 10000)]"
    by (simp add: l1 d2 demo_dev_f demo_eff_sel)
  from lr_decay_iff[OF h1 demo_loop(3) b3]
  have e3: "\<exists>new. trace demo_st3 = trace demo_st2 @ new \<and> filter is_change_lr new = []"
    by (simp add: l2 d2 demo_dev_f demo_eff_sel)
  have "current_lr demo_st3 = 9 / 10000" by (simp add: demo_st3_def)
  with e2 e3 h1 demo_loop(2,3) demo_body2 demo_body3 l1 l2 show ?thesis by simp
qed

text \<open>The order inside one completed iteration: both decisions run on a state whose
  history is still the one the iteration started with, and the new state is the result of
  the learning-rate decision with the score appended and the empty line printed.\<close>

lemma epoch_body_order:
  assumes "epoch_body a \<epsilon> tb db sys gold ms epoch st = Inr st'"
  shows "\<exists>st3 st4 st5 us.
           list_all quiet us \<and> trace st3 = trace st @ us \<and> current_lr st3 = current_lr st \<and>
           dev_score_history st3 = dev_score_history st \<and>
           checkpoint_decision a epoch (dev_f \<epsilon> db epoch) st3 = Inr st4 \<and>
           lr_decision a epoch (dev_f \<epsilon> db epoch) st4 = Inr st5 \<and>
           dev_score_history st5 = dev_score_history st \<and>
           st' = st5\<lparr>dev_score_history := dev_score_history st5 @ [dev_f \<epsilon> db epoch],
                     trace := trace st5 @ [Print EmptyLine]\<rparr>"
proof -
  let ?d = "dev_f \<epsilon> db epoch"
  obtain losses st1 where
    u: "update_loop a \<epsilon> ms epoch (batches tb) 0 st = Inr (losses, st1)"
    using assms by (auto simp: epoch_body_def split: sum.splits)
  from update_loop_Inr[OF u] obtain us where
    s1: "dev_score_history st1 = dev_score_history st" "current_lr st1 = current_lr st"
        "trace st1 = trace st @ us" "list_all quiet us"
    by blast
  have nz: "num_examples tb \<noteq> 0"
    using assms u by (auto simp: epoch_body_def Let_def split: if_splits)
  let ?mid = "[Print EvaluatingDev] @ map Predict (batches db)
              @ [WriteConll (dev_preds_of \<epsilon> db epoch) sys, Score sys gold]
              @ [Print (EpochLog epoch
                   (losses / real_of_int (num_examples tb) * real_of_int (batch_size a)) ?d)]"
  let ?st3 = "st1\<lparr>trace := trace st1 @ ?mid\<rparr>"
  obtain st4 where c: "checkpoint_decision a epoch ?d ?st3 = Inr st4"
    using assms u nz by (auto simp: epoch_body_def Let_def split: sum.splits)
  obtain st5 where l: "lr_decision a epoch ?d st4 = Inr st5"
    using assms u nz c by (auto simp: epoch_body_def Let_def split: sum.splits)
  have fin: "st' = st5\<lparr>dev_score_history := dev_score_history st5 @ [?d],
                         trace := trace st5 @ [Print EmptyLine]\<rparr>"
    using assms u nz c l by (simp add: epoch_body_def Let_def)
  have h4: "dev_score_history st4 = dev_score_history st"
    using checkpoint_decision_Inr[OF c] s1(1) by (auto split: if_splits)
  have h5: "dev_score_history st5 = dev_score_history st"
    using lr_decision_Inr[OF l] h4 by (auto split: if_splits)
  have q: "list_all quiet (us @ ?mid)" using s1(4) by (auto simp: list_all_iff)
  have t3: "trace ?st3 = trace st @ (us @ ?mid)" by (simp add: s1(3))
  have l3: "current_lr ?st3 = current_lr st" by (simp add: s1(2))
  have h3: "dev_score_history ?st3 = dev_score_history st" by (simp add: s1(1))
  from q t3 l3 h3 c l h5 fin show ?thesis by blast
qed

text \<open>
  C4. After \<open>k\<close> completed epochs the history holds exactly \<open>k\<close> scores, the dev scores of
  the epochs \<open>1\<close> to \<open>k\<close> in order; the history after any smaller number \<open>j\<close> of epochs is
  its first \<open>j\<close> entries, so an entry is never changed once appended. In the
  iteration of epoch \<open>k + 1\<close> the checkpoint decision and then the learning-rate decision
  run on the history of the \<open>k\<close> earlier epochs, which they leave as it is, and only the
  state that results from them receives the score of the epoch, as one new last entry.
  Where nothing raises (the logging cadence and the number of examples are not 0 and the decay
  starts at epoch 1 or later) every epoch count is completed.
\<close>

theorem dev_score_history_length:
  assumes "dev_score_history st0 = []"
  shows "(\<forall>st. epoch_loop a \<epsilon> tb db sys gold ms st0 k = Inr st \<longrightarrow>
            length (dev_score_history st) = k \<and>
            dev_score_history st = map (dev_f \<epsilon> db) [1..<Suc k] \<and>
            (\<forall>j\<le>k. \<exists>s. epoch_loop a \<epsilon> tb db sys gold ms st0 j = Inr s \<and>
                       dev_score_history s = take j (dev_score_history st)) \<and>
            (\<forall>st'. epoch_body a \<epsilon> tb db sys gold ms (Suc k) st = Inr st' \<longrightarrow>
                    dev_score_history st' = dev_score_history st @ [dev_f \<epsilon> db (Suc k)] \<and>
                    (\<exists>st3 st4 st5 us.
                       list_all quiet us \<and> trace st3 = trace st @ us \<and>
                       current_lr st3 = current_lr st \<and>
                       dev_score_history st3 = dev_score_history st \<and>
                       checkpoint_decision a (Suc k) (dev_f \<epsilon> db (Suc k)) st3 = Inr st4 \<and>
                       lr_decision a (Suc k) (dev_f \<epsilon> db (Suc k)) st4 = Inr st5 \<and>
                       dev_score_history st5 = dev_score_history st \<and>
                       st' = st5\<lparr>dev_score_history :=
                                   dev_score_history st5 @ [dev_f \<epsilon> db (Suc k)],
                                 trace := trace st5 @ [Print EmptyLine]\<rparr>))) \<and>
         (\<forall>e d s s'. checkpoint_decision a e d s = Inr s' \<longrightarrow>
                      dev_score_history s' = dev_score_history s) \<and>
         (\<forall>e d s s'. lr_decision a e d s = Inr s' \<longrightarrow>
                      dev_score_history s' = dev_score_history s) \<and>
         (log_step a \<noteq> 0 \<and> num_examples tb \<noteq> 0 \<and> 1 \<le> decay_epoch a \<longrightarrow>
            (\<exists>st. epoch_loop a \<epsilon> tb db sys gold ms st0 k = Inr st))"
proof (intro conjI allI impI)
  fix st assume r: "epoch_loop a \<epsilon> tb db sys gold ms st0 k = Inr st"
  have h: "dev_score_history st = map (dev_f \<epsilon> db) [1..<Suc k]"
    using epoch_loop_history[OF r] assms by simp
  then show "dev_score_history st = map (dev_f \<epsilon> db) [1..<Suc k]" .
  from h show "length (dev_score_history st) = k" by simp
  {
    fix j assume j: "j \<le> k"
    from epoch_loop_prefix[OF r j] obtain s where
      s: "epoch_loop a \<epsilon> tb db sys gold ms st0 j = Inr s" ..
    have "dev_score_history s = map (dev_f \<epsilon> db) [1..<Suc j]"
      using epoch_loop_history[OF s] assms by simp
    also have "\<dots> = take j (dev_score_history st)"
    proof -
      have "take j [1..<Suc k] = [1..<1 + j]"
        using j by (intro take_upt) simp
      then show ?thesis by (simp add: h take_map del: upt_Suc)
    qed
    finally show "\<exists>s. epoch_loop a \<epsilon> tb db sys gold ms st0 j = Inr s \<and>
                       dev_score_history s = take j (dev_score_history st)"
      using s by blast
  }
  {
    fix st' assume b: "epoch_body a \<epsilon> tb db sys gold ms (Suc k) st = Inr st'"
    then show "dev_score_history st' = dev_score_history st @ [dev_f \<epsilon> db (Suc k)]"
      by (rule epoch_body_Inr(2))
    from b show "\<exists>st3 st4 st5 us.
                       list_all quiet us \<and> trace st3 = trace st @ us \<and>
                       current_lr st3 = current_lr st \<and>
                       dev_score_history st3 = dev_score_history st \<and>
                       checkpoint_decision a (Suc k) (dev_f \<epsilon> db (Suc k)) st3 = Inr st4 \<and>
                       lr_decision a (Suc k) (dev_f \<epsilon> db (Suc k)) st4 = Inr st5 \<and>
                       dev_score_history st5 = dev_score_history st \<and>
                       st' = st5\<lparr>dev_score_history :=
                                   dev_score_history st5 @ [dev_f \<epsilon> db (Suc k)],
                                 trace := trace st5 @ [Print EmptyLine]\<rparr>"
      by (rule epoch_body_order)
  }
next
  fix e d s s' assume "checkpoint_decision a e d s = Inr s'"
  from checkpoint_decision_Inr[OF this] show "dev_score_history s' = dev_score_history s"
    by (auto split: if_splits)
next
  fix e d s s' assume "lr_decision a e d s = Inr s'"
  from lr_decision_Inr[OF this] show "dev_score_history s' = dev_score_history s"
    by (auto split: if_splits)
next
  assume "log_step a \<noteq> 0 \<and> num_examples tb \<noteq> 0 \<and> 1 \<le> decay_epoch a"
  then show "\<exists>st. epoch_loop a \<epsilon> tb db sys gold ms st0 k = Inr st"
    using epoch_loop_total[OF _ _ _ assms] by blast
qed

theorem dev_score_history_length_witness:
  "dev_score_history demo_st0 = [] \<and>
   epoch_loop demo_eff demo_env demo_train demo_dev ''data/out.conllu'' (Some ''gold.conllu'') 6
     demo_st0 3 = Inr demo_st3 \<and>
   length (dev_score_history demo_st3) = 3 \<and>
   dev_score_history demo_st3 = [1 / 2, 3 / 10, 1 / 2] \<and>
   dev_score_history demo_st2 = take 2 (dev_score_history demo_st3) \<and>
   dev_score_history demo_st1 = take 1 (dev_score_history demo_st3) \<and>
   epoch_body demo_eff demo_env demo_train demo_dev ''data/out.conllu'' (Some ''gold.conllu'') 6
     3 demo_st2 = Inr demo_st3 \<and>
   (\<exists>st3 st4 st5.
      dev_score_history st3 = [1 / 2, 3 / 10] \<and>
      checkpoint_decision demo_eff 3 (1 / 2) st3 = Inr st4 \<and>
      lr_decision demo_eff 3 (1 / 2) st4 = Inr st5 \<and>
      dev_score_history st5 = [1 / 2, 3 / 10] \<and>
      demo_st3 = st5\<lparr>dev_score_history := dev_score_history st5 @ [1 / 2],
                        trace := trace st5 @ [Print EmptyLine]\<rparr>)"
proof -
  have h1: "dev_score_history demo_st0 = []" by (simp add: demo_st0_def)
  from dev_score_history_length[OF h1, of demo_eff demo_env demo_train demo_dev
      "''data/out.conllu''" "Some ''gold.conllu''" 6 3] demo_loop(4)
  have l: "length (dev_score_history demo_st3) = 3" by blast
  have b3: "epoch_body demo_eff demo_env demo_train demo_dev ''data/out.conllu''
              (Some ''gold.conllu'') 6 (Suc 2) demo_st2 = Inr demo_st3"
    using demo_body3 by (simp add: eval_nat_numeral)
  have h2: "dev_score_history demo_st2 = [1 / 2, 3 / 10]" by (simp add: demo_st2_def)
  from dev_score_history_length[OF h1, of demo_eff demo_env demo_train demo_dev
      "''data/out.conllu''" "Some ''gold.conllu''" 6 2] demo_loop(3) b3
  obtain st3 st4 st5 where
    f: "dev_score_history st3 = dev_score_history demo_st2"
    "checkpoint_decision demo_eff (Suc 2) (dev_f demo_env demo_dev (Suc 2)) st3 = Inr st4"
    "lr_decision demo_eff (Suc 2) (dev_f demo_env demo_dev (Suc 2)) st4 = Inr st5"
    "dev_score_history st5 = dev_score_history demo_st2"
    "demo_st3 = st5\<lparr>dev_score_history :=
                        dev_score_history st5 @ [dev_f demo_env demo_dev (Suc 2)],
                      trace := trace st5 @ [Print EmptyLine]\<rparr>"
    by blast
  have c1: "dev_score_history st3 = [1 / 2, 3 / 10]" using f(1) h2 by simp
  have c2: "checkpoint_decision demo_eff 3 (1 / 2) st3 = Inr st4"
    using f(2) by (simp add: demo_dev_f)
  have c3: "lr_decision demo_eff 3 (1 / 2) st4 = Inr st5"
    using f(3) by (simp add: demo_dev_f)
  have c4: "dev_score_history st5 = [1 / 2, 3 / 10]" using f(4) h2 by simp
  have c5: "demo_st3 = st5\<lparr>dev_score_history := dev_score_history st5 @ [1 / 2],
                        trace := trace st5 @ [Print EmptyLine]\<rparr>"
    using f(5) by (simp add: demo_dev_f)
  from c1 c2 c3 c4 c5 have e: "\<exists>st3 st4 st5.
      dev_score_history st3 = [1 / 2, 3 / 10] \<and>
      checkpoint_decision demo_eff 3 (1 / 2) st3 = Inr st4 \<and>
      lr_decision demo_eff 3 (1 / 2) st4 = Inr st5 \<and>
      dev_score_history st5 = [1 / 2, 3 / 10] \<and>
      demo_st3 = st5\<lparr>dev_score_history := dev_score_history st5 @ [1 / 2],
                        trace := trace st5 @ [Print EmptyLine]\<rparr>"
    by blast
  from l e demo_body3 show ?thesis
    using h1 demo_loop(4) by (simp add: demo_st3_def demo_st2_def demo_st1_def)
qed

text \<open>
  C8. The learning-rate decision faults exactly when it is reached with the epoch index
  above \<open>decay_epoch\<close> and an empty history. With \<open>decay_epoch \<ge> 1\<close> the loop never
  raises \<^verbatim>\<open>IndexError\<close>, whatever the number of epochs. With \<open>decay_epoch \<le> 0\<close> the first
  epoch reads \<^verbatim>\<open>dev_score_history[-1]\<close> on the empty history and the loop ends in
  \<^verbatim>\<open>IndexError\<close> (where the epoch gets that far: the logging cadence and the number of
  examples are not 0).
\<close>

theorem history_read_guarded:
  assumes "dev_score_history st0 = []"
  shows "(\<forall>e d s err tr. lr_decision a e d s = Inl (err, tr) \<longleftrightarrow>
            err = IndexError \<and> tr = trace s \<and> decay_epoch a < int e \<and> dev_score_history s = []) \<and>
         (1 \<le> decay_epoch a \<longrightarrow>
            (\<forall>k tr. epoch_loop a \<epsilon> tb db sys gold ms st0 k \<noteq> Inl (IndexError, tr))) \<and>
         (decay_epoch a \<le> 0 \<and> log_step a \<noteq> 0 \<and> num_examples tb \<noteq> 0 \<longrightarrow>
            (\<forall>k. \<exists>tr. epoch_loop a \<epsilon> tb db sys gold ms st0 (Suc k) = Inl (IndexError, tr)))"
proof (intro conjI allI impI)
  fix e d s err tr
  show "lr_decision a e d s = Inl (err, tr) \<longleftrightarrow>
          err = IndexError \<and> tr = trace s \<and> decay_epoch a < int e \<and> dev_score_history s = []"
    by (auto simp: lr_decision_def Let_def split: list.splits)
next
  fix k tr assume d: "1 \<le> decay_epoch a"
  show "epoch_loop a \<epsilon> tb db sys gold ms st0 k \<noteq> Inl (IndexError, tr)"
  proof
    assume "epoch_loop a \<epsilon> tb db sys gold ms st0 k = Inl (IndexError, tr)"
    from epoch_loop_IndexError[OF this assms] d show False by simp
  qed
next
  fix k assume "decay_epoch a \<le> 0 \<and> log_step a \<noteq> 0 \<and> num_examples tb \<noteq> 0"
  then show "\<exists>tr. epoch_loop a \<epsilon> tb db sys gold ms st0 (Suc k) = Inl (IndexError, tr)"
    using epoch_loop_first_IndexError[OF _ _ _ assms] by blast
qed

text \<open>The concrete run with the decay starting at epoch 1 completes; the same run with
  \<open>decay_epoch = 0\<close> saves the first checkpoint and then faults in the first epoch.\<close>

theorem history_read_guarded_witness:
  "dev_score_history demo_st0 = [] \<and> 1 \<le> decay_epoch demo_eff \<and>
   epoch_loop demo_eff demo_env demo_train demo_dev ''data/out.conllu'' (Some ''gold.conllu'') 6
     demo_st0 3 = Inr demo_st3 \<and>
   epoch_loop demo_eff demo_env demo_train demo_dev ''data/out.conllu'' (Some ''gold.conllu'') 6
     demo_st0 3 \<noteq> Inl (IndexError, []) \<and>
   decay_epoch (demo_eff\<lparr>decay_epoch := 0\<rparr>) \<le> 0 \<and>
   log_step (demo_eff\<lparr>decay_epoch := 0\<rparr>) = 2 \<and> num_examples demo_train = 80 \<and>
   epoch_loop (demo_eff\<lparr>decay_epoch := 0\<rparr>) demo_env demo_train demo_dev ''data/out.conllu''
     (Some ''gold.conllu'') 6 demo_st0 (Suc 0) = Inl (IndexError, butlast (trace demo_st1))"
proof -
  have h1: "dev_score_history demo_st0 = []" by (simp add: demo_st0_def)
  have d: "1 \<le> decay_epoch demo_eff" by (simp add: demo_eff_sel)
  from history_read_guarded[OF h1, of demo_eff demo_env demo_train demo_dev
      "''data/out.conllu''" "Some ''gold.conllu''" 6] d
  have a: "epoch_loop demo_eff demo_env demo_train demo_dev ''data/out.conllu''
             (Some ''gold.conllu'') 6 demo_st0 3 \<noteq> Inl (IndexError, [])"
    by blast
  have c: "decay_epoch (demo_eff\<lparr>decay_epoch := 0\<rparr>) \<le> 0 \<and>
           log_step (demo_eff\<lparr>decay_epoch := 0\<rparr>) \<noteq> 0 \<and> num_examples demo_train \<noteq> 0"
    by (simp add: demo_eff_sel demo_sel)
  from history_read_guarded[OF h1, of "demo_eff\<lparr>decay_epoch := 0\<rparr>" demo_env demo_train
      demo_dev "''data/out.conllu''" "Some ''gold.conllu''" 6] c
  obtain tr where "epoch_loop (demo_eff\<lparr>decay_epoch := 0\<rparr>) demo_env demo_train demo_dev
      ''data/out.conllu'' (Some ''gold.conllu'') 6 demo_st0 (Suc 0) = Inl (IndexError, tr)"
    by blast
  moreover have "epoch_loop (demo_eff\<lparr>decay_epoch := 0\<rparr>) demo_env demo_train demo_dev
      ''data/out.conllu'' (Some ''gold.conllu'') 6 demo_st0 (Suc 0)
      = Inl (IndexError, butlast (trace demo_st1))"
    by (simp add: epoch_body_def Let_def demo_st0_def demo_st1_def checkpoint_decision_def
        lr_decision_def demo_dev_f demo_trace1_def demo_sel demo_eff_sel butlast_append)
  ultimately show ?thesis
    using h1 d a demo_loop(4) by (simp add: demo_eff_sel demo_sel)
qed

subsection \<open>\<^verbatim>\<open>train\<close> without data, and the dictionary strategy\<close>

lemma train_skip:
  assumes "batches (train_loader a \<epsilon>) = [] \<or> batches (dev_loader a \<epsilon>) = []"
  shows "train a \<epsilon> =
           (case output_file a of
              None \<Rightarrow> (Raised TypeError, [Print (LoadingData (data_dir a) (batch_size a))])
            | Some out \<Rightarrow>
                (Exited, [Print (LoadingData (data_dir a) (batch_size a)),
                          SaveConfig (effective_args a \<epsilon>) (config_file_of (effective_args a \<epsilon>)),
                          Print SkipTraining]))"
  using assms by (auto simp: train_def Let_def split: option.splits)

lemma demo_no_train_gen:
  "train_file a = None \<Longrightarrow> data_dir a = ''data'' \<Longrightarrow> train_loader a demo_env = no_data"
  by (simp add: train_loader_def demo_env_def)

lemma demo_no_train:
  "train_loader (demo_args\<lparr>train_file := None\<rparr>) demo_env = no_data"
  "batches no_data = []"
  by (simp_all add: demo_no_train_gen demo_args_def no_data_def)

text \<open>What \<^verbatim>\<open>train\<close> does without training or dev batches: it builds no trainer, runs no
  update and no prediction and saves no model. Given an output file it ends by \<^verbatim>\<open>exit()\<close>
  after the skip message; without one it has already stopped at line 97.\<close>

lemma train_without_data:
  assumes "batches (train_loader a \<epsilon>) = [] \<or> batches (dev_loader a \<epsilon>) = []"
  shows "list_all (\<lambda>e. \<not> trainer_event e) (snd (train a \<epsilon>)) \<and>
         filter is_save (snd (train a \<epsilon>)) = [] \<and>
         fst (train a \<epsilon>) = (if output_file a = None then Raised TypeError else Exited) \<and>
         (output_file a \<noteq> None \<longrightarrow> last (snd (train a \<epsilon>)) = Print SkipTraining)"
  by (cases "output_file a") (simp_all add: train_skip[OF assms])

text \<open>
  C3. A run of \<^verbatim>\<open>train\<close> without training or dev batches is meant to end as a skip, not
  as an error (the comment of line 106; \<^verbatim>\<open>evaluate\<close> tests for data before it touches
  the output path). \<^verbatim>\<open>train\<close> builds the output path at line 97, before the test of
  line 107: on the command line of the concrete run without a training file and without
  \<^verbatim>\<open>--output_file\<close> there are no training batches, and \<^verbatim>\<open>train\<close> raises \<^verbatim>\<open>TypeError\<close>
  after the loading message; it prints no skip message, writes no configuration and does
  not exit. \<^verbatim>\<open>evaluate\<close> without eval batches and without \<^verbatim>\<open>--output_file\<close> skips. The
  same \<^verbatim>\<open>train\<close> run with an output file skips as well.
\<close>

theorem skip_training_raises_without_output_file:
  "output_file (demo_args\<lparr>train_file := None, output_file := None\<rparr>) = None \<and>
   batches (train_loader (demo_args\<lparr>train_file := None, output_file := None\<rparr>) demo_env) = [] \<and>
   train (demo_args\<lparr>train_file := None, output_file := None\<rparr>) demo_env
     = (Raised TypeError, [Print (LoadingData ''data'' 50)]) \<and>
   evaluate (demo_args\<lparr>eval_file := None, output_file := None\<rparr>) demo_env
     = (Exited, [LoadConfig ''saved/fr_config.json'', Print (LoadingData ''data'' 50),
                 Print SkipEvaluation, Print ScoreHeader, Print (ScoreLine (Some ''fr'') None)]) \<and>
   train (demo_args\<lparr>train_file := None\<rparr>) demo_env
     = (Exited, [Print (LoadingData ''data'' 50),
                 SaveConfig (demo_args\<lparr>train_file := None, save_name := Some ''saved/fr.pt'',
                                       vocab_size := Some 0\<rparr>) ''saved/fr_config.json'',
                 Print SkipTraining])"
proof -
  let ?a = "demo_args\<lparr>train_file := None, output_file := None\<rparr>"
  have t: "train_loader ?a demo_env = no_data"
    by (rule demo_no_train_gen) (simp_all add: demo_args_def)
  have o: "output_file ?a = None" "data_dir ?a = ''data''" "batch_size ?a = 50"
    by (simp_all add: demo_args_def)
  have h: "batches (train_loader ?a demo_env) = [] \<or> batches (dev_loader ?a demo_env) = []"
    by (simp add: t demo_no_train(2))
  have 1: "train ?a demo_env = (Raised TypeError, [Print (LoadingData ''data'' 50)])"
    by (simp add: train_skip[OF h] o)
  have 2: "evaluate (demo_args\<lparr>eval_file := None, output_file := None\<rparr>) demo_env
     = (Exited, [LoadConfig ''saved/fr_config.json'', Print (LoadingData ''data'' 50),
                 Print SkipEvaluation, Print ScoreHeader, Print (ScoreLine (Some ''fr'') None)])"
    by (simp add: evaluate_def Let_def config_file_of_def demo_args_def demo_env_def
        no_data_def)
  let ?b = "demo_args\<lparr>train_file := None\<rparr>"
  have hb: "batches (train_loader ?b demo_env) = [] \<or> batches (dev_loader ?b demo_env) = []"
    by (simp add: demo_no_train)
  have e: "effective_args ?b demo_env =
             demo_args\<lparr>train_file := None, save_name := Some ''saved/fr.pt'',
                       vocab_size := Some 0\<rparr>"
    by (simp add: effective_args_def resolved_def with_vocab_def demo_no_train_gen
        model_file_of_def demo_args_def no_data_def)
  have c: "config_file_of (demo_args\<lparr>train_file := None, save_name := Some ''saved/fr.pt'',
                       vocab_size := Some 0\<rparr>) = ''saved/fr_config.json''"
    by (simp add: config_file_of_def demo_args_def)
  have ob: "output_file ?b = Some ''out.conllu''" "data_dir ?b = ''data''" "batch_size ?b = 50"
    by (simp_all add: demo_args_def)
  have 3: "train ?b demo_env
     = (Exited, [Print (LoadingData ''data'' 50),
                 SaveConfig (demo_args\<lparr>train_file := None, save_name := Some ''saved/fr.pt'',
                                       vocab_size := Some 0\<rparr>) ''saved/fr_config.json'',
                 Print SkipTraining])"
    by (simp add: train_skip[OF hb] ob e c)
  from o(1) t 1 2 3 show ?thesis by (simp add: demo_no_train(2))
qed

text \<open>
  C6. With data, an output file and the dictionary strategy selected (in the effective
  arguments), \<^verbatim>\<open>train\<close> runs no epoch loop. After the configuration is written it builds
  the dictionary trainer and makes one \<^verbatim>\<open>train\<close> call on the training pairs, one
  \<^verbatim>\<open>predict\<close> call on the dev candidates, one write of the predictions, one scoring and
  one save, in this order, and returns; the save does not depend on the score.
\<close>

theorem dict_training_single_cycle:
  assumes "batches (train_loader a \<epsilon>) \<noteq> []" and "batches (dev_loader a \<epsilon>) \<noteq> []"
      and "output_file a = Some out" and "dict_only (effective_args a \<epsilon>)"
  shows "train a \<epsilon> =
           (Returned,
            [Print (LoadingData (data_dir a) (batch_size a)),
             SaveConfig (effective_args a \<epsilon>) (config_file_of (effective_args a \<epsilon>)),
             NewDictTrainer (effective_args a \<epsilon>), Print TrainingDict,
             DictTrain (mwt_expansions (train_loader a \<epsilon>)), Print EvaluatingDev,
             DictPredict (mwt_expansion_cands (dev_loader a \<epsilon>)),
             WriteConll (dict_predict \<epsilon> (mwt_expansion_cands (dev_loader a \<epsilon>)))
               (data_dir a @ ''/'' @ out),
             Score (data_dir a @ ''/'' @ out) (gold_file a),
             Print (DevF1 (snd (snd (score \<epsilon>
                      (dict_predict \<epsilon> (mwt_expansion_cands (dev_loader a \<epsilon>))))) * 100)),
             TrainerSave (save_name (effective_args a \<epsilon>))])"
  using assms by (simp add: train_def train_dict_def Let_def)

theorem dict_training_single_cycle_witness:
  "batches (train_loader (demo_args\<lparr>dict_only := True\<rparr>) demo_env) = [0, 1] \<and>
   batches (dev_loader (demo_args\<lparr>dict_only := True\<rparr>) demo_env) = [0] \<and>
   output_file (demo_args\<lparr>dict_only := True\<rparr>) = Some ''out.conllu'' \<and>
   dict_only (effective_args (demo_args\<lparr>dict_only := True\<rparr>) demo_env) \<and>
   train (demo_args\<lparr>dict_only := True\<rparr>) demo_env =
     (Returned,
      [Print (LoadingData ''data'' 50),
       SaveConfig (demo_eff\<lparr>dict_only := True\<rparr>) ''saved/fr_config.json'',
       NewDictTrainer (demo_eff\<lparr>dict_only := True\<rparr>), Print TrainingDict,
       DictTrain [(''du'', ''de le'')], Print EvaluatingDev, DictPredict [''au''],
       WriteConll [''au''] ''data/out.conllu'', Score ''data/out.conllu'' (Some ''gold.conllu''),
       Print (DevF1 30), TrainerSave (Some ''saved/fr.pt'')])"
proof -
  let ?a = "demo_args\<lparr>dict_only := True\<rparr>"
  have l: "train_loader ?a demo_env = demo_train" "dev_loader ?a demo_env = demo_dev"
    by (simp_all add: train_loader_def dev_loader_def demo_args_def demo_env_def)
  have e: "effective_args ?a demo_env = demo_eff\<lparr>dict_only := True\<rparr>"
    by (simp add: effective_args_def resolved_def with_vocab_def train_loader_def
        model_file_of_def demo_args_def demo_env_def demo_train_def demo_eff_def)
  have s: "output_file ?a = Some ''out.conllu''" "data_dir ?a = ''data''" "batch_size ?a = 50"
    "gold_file ?a = Some ''gold.conllu''"
    by (simp_all add: demo_args_def)
  have c: "config_file_of (demo_eff\<lparr>dict_only := True\<rparr>) = ''saved/fr_config.json''"
    "save_name (demo_eff\<lparr>dict_only := True\<rparr>) = Some ''saved/fr.pt''"
    by (simp_all add: config_file_of_def demo_eff_def demo_args_def)
  have p: "mwt_expansions demo_train = [(''du'', ''de le'')]"
    "mwt_expansion_cands demo_dev = [''au'']" "dict_predict demo_env [''au''] = [''au'']"
    "snd (snd (score demo_env [''au''])) = 3 / 10"
    by (simp_all add: demo_train_def demo_dev_def demo_env_def)
  have h1: "batches (train_loader ?a demo_env) \<noteq> []" by (simp add: l demo_sel)
  have h2: "batches (dev_loader ?a demo_env) \<noteq> []" by (simp add: l demo_sel)
  have h4: "dict_only (effective_args ?a demo_env)" by (simp add: e)
  from dict_training_single_cycle[OF h1 h2 s(1) h4] show ?thesis
    by (simp add: l e s c p demo_sel)
qed

subsection \<open>Traces of the loop and of a whole run\<close>

lemma quiet_loop_event: "list_all quiet us \<Longrightarrow> list_all loop_event us"
  by (simp add: list_all_iff loop_event_def)

lemma epoch_body_trace:
  "\<exists>us. result_trace (epoch_body a \<epsilon> tb db sys gold ms epoch st) = trace st @ us \<and>
        list_all loop_event us"
proof (cases "epoch_body a \<epsilon> tb db sys gold ms epoch st")
  case (Inl p)
  obtain err tr where p: "p = (err, tr)" by (cases p)
  from epoch_body_Inl(1)[OF Inl[unfolded p]] obtain us where
    "tr = trace st @ us" "list_all (\<lambda>e. quiet e \<or> is_save e) us" by blast
  then have "result_trace (Inl p) = trace st @ us \<and> list_all loop_event us"
    by (auto simp: p list_all_iff loop_event_def)
  with Inl show ?thesis by auto
next
  case (Inr st')
  let ?d = "dev_f \<epsilon> db epoch"
  from epoch_body_Inr(1)[OF Inr] obtain us where
    q: "list_all quiet us" and
    t: "trace st' = trace st @ us @ save_events a epoch ?d (dev_score_history st)
          @ lr_events a epoch ?d (dev_score_history st) (current_lr st) @ [Print EmptyLine]"
    by blast
  have "list_all loop_event (us @ save_events a epoch ?d (dev_score_history st)
          @ lr_events a epoch ?d (dev_score_history st) (current_lr st) @ [Print EmptyLine])"
    using quiet_loop_event[OF q] by (simp add: save_events_def lr_events_def loop_event_def)
  with t Inr show ?thesis by auto
qed

lemma epoch_loop_trace:
  "\<exists>us. result_trace (epoch_loop a \<epsilon> tb db sys gold ms st0 k) = trace st0 @ us \<and>
        list_all loop_event us"
proof (induction k)
  case 0
  show ?case by simp
next
  case (Suc k)
  then obtain us where
    u: "result_trace (epoch_loop a \<epsilon> tb db sys gold ms st0 k) = trace st0 @ us"
       "list_all loop_event us"
    by blast
  show ?case
  proof (cases "epoch_loop a \<epsilon> tb db sys gold ms st0 k")
    case (Inl p)
    with u show ?thesis by auto
  next
    case (Inr st)
    from epoch_body_trace[of a \<epsilon> tb db sys gold ms "Suc k" st] obtain vs where
      v: "result_trace (epoch_body a \<epsilon> tb db sys gold ms (Suc k) st) = trace st @ vs"
         "list_all loop_event vs"
      by blast
    from u(1) Inr have "trace st = trace st0 @ us" by simp
    with v(1) Inr have
      "result_trace (epoch_loop a \<epsilon> tb db sys gold ms st0 (Suc k)) = trace st0 @ (us @ vs)"
      by simp
    moreover have "list_all loop_event (us @ vs)" using u(2) v(2) by simp
    ultimately show ?thesis by blast
  qed
qed

lemma loop_event_no_seed: "list_all loop_event us \<Longrightarrow> filter is_random_seed us = []"
proof (induction us)
  case Nil
  then show ?case by simp
next
  case (Cons u us)
  then show ?case by (cases u) (simp_all add: loop_event_def)
qed

lemma loop_event_presets: "list_all loop_event us \<Longrightarrow> fold apply_event us store = store"
proof (induction us)
  case Nil
  then show ?case by simp
next
  case (Cons u us)
  then show ?case by (cases u) (simp_all add: loop_event_def)
qed

text \<open>A seq2seq training that returns has completed \<open>num_epoch \<ge> 1\<close> epochs and ends with
  the report of the best score and the update of the presets.\<close>

lemma train_seq2seq_Returned:
  assumes "train_seq2seq a \<epsilon> pl tb db sys gold tr0 = (Returned, tr)"
  shows "\<exists>(st::loop_state) i us. 1 \<le> num_epoch a \<and>
           epoch_loop a \<epsilon> tb db sys gold (int (length (batches tb)) * num_epoch a)
             \<lparr>global_step = 0, dev_score_history = [], current_lr = lr a,
              trace = tr0 @ [NewTrainer a (vocab_len tb)]\<rparr> (nat (num_epoch a)) = Inr st \<and>
           dev_score_history st = map (dev_f \<epsilon> db) [1..<Suc (nat (num_epoch a))] \<and>
           np_argmax (dev_score_history st) = Inr i \<and>
           list_all loop_event us \<and>
           tr = (tr0 @ [NewTrainer a (vocab_len tb)] @ us)
                @ [Print (TrainingEnded (nat (num_epoch a))),
                   Print (BestDev (float_mul \<epsilon> (Max (set (dev_score_history st))) 100) (Suc i)),
                   ParamUpdate pl a (float_mul \<epsilon> (Max (set (dev_score_history st))) 100)]"
proof -
  let ?ms = "int (length (batches tb)) * num_epoch a"
  let ?st0 = "\<lparr>global_step = 0, dev_score_history = [], current_lr = lr a,
               trace = tr0 @ [NewTrainer a (vocab_len tb)]\<rparr>"
  let ?n = "nat (num_epoch a)"
  obtain st where l: "epoch_loop a \<epsilon> tb db sys gold ?ms ?st0 ?n = Inr st"
    using assms by (auto simp: train_seq2seq_def Let_def split: sum.splits prod.splits)
  have n: "1 \<le> num_epoch a"
    using assms l by (auto simp: train_seq2seq_def Let_def split: if_splits)
  have h: "dev_score_history st = map (dev_f \<epsilon> db) [1..<Suc ?n]"
    using epoch_loop_history[OF l] by simp
  have ne: "dev_score_history st \<noteq> []"
    using h n by (cases ?n) simp_all
  obtain i where i: "np_argmax (dev_score_history st) = Inr i"
    using np_argmax_first[OF ne] by blast
  from epoch_loop_trace[of a \<epsilon> tb db sys gold ?ms ?st0 ?n] l obtain us where
    u: "trace st = (tr0 @ [NewTrainer a (vocab_len tb)]) @ us" "list_all loop_event us"
    by auto
  have "tr = trace st @ [Print (TrainingEnded ?n),
                   Print (BestDev (float_mul \<epsilon> (Max (set (dev_score_history st))) 100) (Suc i)),
                   ParamUpdate pl a (float_mul \<epsilon> (Max (set (dev_score_history st))) 100)]"
    using assms l n i by (simp add: train_seq2seq_def Let_def py_max_Max[OF ne])
  then have "tr = (tr0 @ [NewTrainer a (vocab_len tb)] @ us)
                @ [Print (TrainingEnded ?n),
                   Print (BestDev (float_mul \<epsilon> (Max (set (dev_score_history st))) 100) (Suc i)),
                   ParamUpdate pl a (float_mul \<epsilon> (Max (set (dev_score_history st))) 100)]"
    by (simp only: u(1) append_assoc)
  with n l h i u(2) show ?thesis by blast
qed

text \<open>When a seq2seq training returns: the epoch count is at least 1 and no iteration
  raises, which with training batches means a logging cadence and a number of examples
  other than 0 and a decay that starts at epoch 1 or later.\<close>

lemma epoch_body_Inr_pre:
  assumes "epoch_body a \<epsilon> tb db sys gold ms epoch st = Inr st'"
  shows "num_examples tb \<noteq> 0" and "batches tb \<noteq> [] \<Longrightarrow> log_step a \<noteq> 0"
proof -
  obtain losses st1 where
    u: "update_loop a \<epsilon> ms epoch (batches tb) 0 st = Inr (losses, st1)"
    using assms by (auto simp: epoch_body_def split: sum.splits)
  show "num_examples tb \<noteq> 0"
    using assms u by (auto simp: epoch_body_def Let_def split: if_splits)
  show "log_step a \<noteq> 0" if "batches tb \<noteq> []"
  proof
    assume "log_step a = 0"
    from update_loop_zero[OF this that, of \<epsilon> ms epoch 0 st] u show False by auto
  qed
qed

lemma train_seq2seq_returns:
  assumes "1 \<le> num_epoch a" "log_step a \<noteq> 0" "num_examples tb \<noteq> 0" "1 \<le> decay_epoch a"
  shows "fst (train_seq2seq a \<epsilon> pl tb db sys gold tr0) = Returned"
proof -
  let ?ms = "int (length (batches tb)) * num_epoch a"
  let ?st0 = "\<lparr>global_step = 0, dev_score_history = [], current_lr = lr a,
               trace = tr0 @ [NewTrainer a (vocab_len tb)]\<rparr>"
  let ?n = "nat (num_epoch a)"
  have e: "dev_score_history ?st0 = []" by simp
  from epoch_loop_total[OF assms(2,3,4) e] obtain st where
    l: "epoch_loop a \<epsilon> tb db sys gold ?ms ?st0 ?n = Inr st" by blast
  have h: "dev_score_history st = map (dev_f \<epsilon> db) [1..<Suc ?n]"
    using epoch_loop_history[OF l] by simp
  have ne: "dev_score_history st \<noteq> []"
    using h assms(1) by (cases ?n) simp_all
  obtain i where i: "np_argmax (dev_score_history st) = Inr i"
    using np_argmax_first[OF ne] by blast
  show ?thesis
    using l assms(1) i by (simp add: train_seq2seq_def Let_def py_max_Max[OF ne])
qed

lemma train_seq2seq_Returned_conds:
  assumes "fst (train_seq2seq a \<epsilon> pl tb db sys gold tr0) = Returned" and "batches tb \<noteq> []"
  shows "1 \<le> num_epoch a \<and> log_step a \<noteq> 0 \<and> num_examples tb \<noteq> 0 \<and> 1 \<le> decay_epoch a"
proof -
  let ?ms = "int (length (batches tb)) * num_epoch a"
  let ?st0 = "\<lparr>global_step = 0, dev_score_history = [], current_lr = lr a,
               trace = tr0 @ [NewTrainer a (vocab_len tb)]\<rparr>"
  obtain tr where t: "train_seq2seq a \<epsilon> pl tb db sys gold tr0 = (Returned, tr)"
    using assms(1) by (cases "train_seq2seq a \<epsilon> pl tb db sys gold tr0") simp
  from train_seq2seq_Returned[OF t] obtain st :: loop_state where
    n: "1 \<le> num_epoch a" and
    l: "epoch_loop a \<epsilon> tb db sys gold ?ms ?st0 (nat (num_epoch a)) = Inr st"
    by blast
  from n have "Suc 0 \<le> nat (num_epoch a)" by simp
  from epoch_loop_prefix[OF l this] obtain s where
    "epoch_loop a \<epsilon> tb db sys gold ?ms ?st0 (Suc 0) = Inr s" by blast
  then have b: "epoch_body a \<epsilon> tb db sys gold ?ms (Suc 0) ?st0 = Inr s" by simp
  have "\<not> decay_epoch a < int (Suc 0)"
  proof
    assume "decay_epoch a < int (Suc 0)"
    from epoch_body_Inr(6)[OF b this] show False by simp
  qed
  with n epoch_body_Inr_pre[OF b] assms(2) show ?thesis by simp
qed

lemma train_seq2seq_no_seed:
  "filter is_random_seed (snd (train_seq2seq a \<epsilon> pl tb db sys gold tr0)) =
   filter is_random_seed tr0"
proof -
  let ?ms = "int (length (batches tb)) * num_epoch a"
  let ?st0 = "\<lparr>global_step = 0, dev_score_history = [], current_lr = lr a,
               trace = tr0 @ [NewTrainer a (vocab_len tb)]\<rparr>"
  let ?n = "nat (num_epoch a)"
  from epoch_loop_trace[of a \<epsilon> tb db sys gold ?ms ?st0 ?n] obtain us where
    u: "result_trace (epoch_loop a \<epsilon> tb db sys gold ?ms ?st0 ?n)
          = (tr0 @ [NewTrainer a (vocab_len tb)]) @ us" "list_all loop_event us"
    by auto
  have f: "filter is_random_seed ((tr0 @ [NewTrainer a (vocab_len tb)]) @ us)
             = filter is_random_seed tr0"
    using loop_event_no_seed[OF u(2)] by simp
  show ?thesis
  proof (cases "epoch_loop a \<epsilon> tb db sys gold ?ms ?st0 ?n")
    case (Inl p)
    obtain err tr where p: "p = (err, tr)" by (cases p)
    from u(1) Inl have "tr = (tr0 @ [NewTrainer a (vocab_len tb)]) @ us" by (simp add: p)
    with f Inl show ?thesis by (simp add: train_seq2seq_def Let_def p)
  next
    case (Inr st)
    from u(1) Inr have "trace st = (tr0 @ [NewTrainer a (vocab_len tb)]) @ us" by simp
    with f have "filter is_random_seed (trace st) = filter is_random_seed tr0" by simp
    with Inr show ?thesis
      by (simp add: train_seq2seq_def Let_def split: sum.splits)
  qed
qed

lemma train_no_seed: "filter is_random_seed (snd (train a \<epsilon>)) = []"
  by (simp add: train_def Let_def train_dict_def train_seq2seq_no_seed split: option.splits)

lemma filter_seed_Predict: "filter is_random_seed (map Predict bs) = []"
  by (induction bs) simp_all

lemma evaluate_no_seed: "filter is_random_seed (snd (evaluate a \<epsilon>)) = []"
  by (simp add: evaluate_def Let_def filter_seed_Predict split: option.splits)




text \<open>The second concrete run, evaluated.\<close>

lemma demo2_sel:
  "update_loss demo_env2 g b = 1" "float_mul demo_env2 x y = x * y"
  "dev_preds_of demo_env2 demo_dev (Suc 0) = [''b'']" "dev_preds_of demo_env2 demo_dev 2 = [''a'']"
  "dev_preds_of demo_env2 demo_dev 3 = [''a'']"
  by (simp_all add: demo_env2_def demo_env_def demo_dev_def dev_preds_of_def)

lemma demo2_dev_f:
  "dev_f demo_env2 demo_dev (Suc 0) = 3 / 10" "dev_f demo_env2 demo_dev 2 = 1 / 2"
  "dev_f demo_env2 demo_dev 3 = 1 / 2"
  by (simp_all add: dev_f_def dev_preds_of_def demo_env2_def demo_env_def demo_dev_def)

lemma demo2_body1:
  "epoch_body demo_eff demo_env2 demo_train demo_dev ''data/out.conllu'' (Some ''gold.conllu'') 6
     (Suc 0) demo_st0 = Inr demo2_st1"
  by (simp add: epoch_body_def Let_def demo_st0_def demo2_st1_def checkpoint_decision_def
      lr_decision_def demo2_dev_f demo_sel demo2_sel demo_eff_sel)

lemma demo2_body2:
  "epoch_body demo_eff demo_env2 demo_train demo_dev ''data/out.conllu'' (Some ''gold.conllu'') 6
     2 demo2_st1 = Inr demo2_st2"
  by (simp add: epoch_body_def Let_def demo2_st1_def demo2_st2_def checkpoint_decision_def
      lr_decision_def demo2_dev_f demo_sel demo2_sel demo_eff_sel)

lemma demo2_body3:
  "epoch_body demo_eff demo_env2 demo_train demo_dev ''data/out.conllu'' (Some ''gold.conllu'') 6
     3 demo2_st2 = Inr demo2_st3"
  by (simp add: epoch_body_def Let_def demo2_st1_def demo2_st2_def demo2_st3_def
      checkpoint_decision_def lr_decision_def demo2_dev_f demo_sel demo2_sel demo_eff_sel)

lemma demo2_loop:
  "epoch_loop demo_eff demo_env2 demo_train demo_dev ''data/out.conllu'' (Some ''gold.conllu'') 6
     demo_st0 3 = Inr demo2_st3"
  using demo2_body1 demo2_body2 demo2_body3
  by (simp add: eval_nat_numeral)

lemma demo2_args:
  "effective_args demo_args demo_env2 = demo_eff"
  "train_loader demo_args demo_env2 = demo_train" "dev_loader demo_args demo_env2 = demo_dev"
  by (simp_all add: effective_args_def resolved_def with_vocab_def train_loader_def
      dev_loader_def model_file_of_def demo_args_def demo_env2_def demo_env_def demo_train_def
      demo_eff_def)

lemma demo2_train_run:
  "train demo_args demo_env2 =
     (Returned, trace demo2_st3
                @ [Print (TrainingEnded 3), Print (BestDev 50 2),
                   ParamUpdate (Some ''fr'') demo_eff 50])"
proof -
  have "train_seq2seq demo_eff demo_env2 (Some ''fr'') demo_train demo_dev ''data/out.conllu''
          (Some ''gold.conllu'')
          [Print (LoadingData ''data'' 50), SaveConfig demo_eff ''saved/fr_config.json''] =
     (Returned, trace demo2_st3
                @ [Print (TrainingEnded 3), Print (BestDev 50 2),
                   ParamUpdate (Some ''fr'') demo_eff 50])"
    using demo2_loop
    by (simp add: train_seq2seq_def Let_def demo_sel demo2_sel demo_eff_sel demo_st0_def
        demo_prefix_def demo_train_def demo2_st3_def)
  moreover have "config_file_of demo_eff = ''saved/fr_config.json''"
    by (simp add: config_file_of_def demo_eff_def demo_args_def)
  moreover have "output_file demo_args = Some ''out.conllu''" "data_dir demo_args = ''data''"
    "gold_file demo_args = Some ''gold.conllu''" "batch_size demo_args = 50"
    "lang demo_args = Some ''fr''"
    by (simp_all add: demo_args_def)
  ultimately show ?thesis
    by (simp add: train_def Let_def demo2_args demo_sel demo_eff_sel)
qed

text \<open>
  C5. A seq2seq training returns exactly when it has an output file and data, its epoch
  count is at least 1 and no iteration raises (the logging cadence and the number of
  examples are not 0 and the decay starts at epoch 1 or later). It has then recorded the
  dev scores \<open>h\<close> of its \<open>num_epoch\<close> epochs, and its last two effects are the report of
  the best score, \<^verbatim>\<open>max(h) * 100\<close> as the machine multiplies, together with the 1-based
  position of the first entry of \<open>h\<close> that attains the maximum, and the call
  \<^verbatim>\<open>param_manager.update\<close> with the arguments and that score; it is the only such call
  of the run. In the preset store as the spec describes it, this call replaces an
  existing record of the language exactly when the new score is strictly greater than
  the recorded one.
\<close>

theorem best_score_reported:
  assumes "\<not> dict_only (effective_args a \<epsilon>)"
  shows "(fst (train a \<epsilon>) = Returned \<longleftrightarrow>
            output_file a \<noteq> None \<and> batches (train_loader a \<epsilon>) \<noteq> [] \<and>
            batches (dev_loader a \<epsilon>) \<noteq> [] \<and> 1 \<le> num_epoch (effective_args a \<epsilon>) \<and>
            log_step (effective_args a \<epsilon>) \<noteq> 0 \<and> num_examples (train_loader a \<epsilon>) \<noteq> 0 \<and>
            1 \<le> decay_epoch (effective_args a \<epsilon>)) \<and>
         (fst (train a \<epsilon>) = Returned \<longrightarrow>
           (\<exists>h i pre best.
              h = map (dev_f \<epsilon> (dev_loader a \<epsilon>))
                    [1..<Suc (nat (num_epoch (effective_args a \<epsilon>)))] \<and>
              h \<noteq> [] \<and> i < length h \<and> h ! i = Max (set h) \<and> (\<forall>j<i. h ! j < Max (set h)) \<and>
              best = float_mul \<epsilon> (Max (set h)) 100 \<and>
              snd (train a \<epsilon>) =
                pre @ [Print (BestDev best (Suc i)),
                       ParamUpdate (lang a) (effective_args a \<epsilon>) best] \<and>
              (\<forall>store. presets_after (snd (train a \<epsilon>)) store =
                  preset_update store (lang a) (effective_args a \<epsilon>) best) \<and>
              (\<forall>store c s. store (lang a) = Some (c, s) \<longrightarrow>
                  preset_update store (lang a) (effective_args a \<epsilon>) best =
                    (if s < best then store(lang a \<mapsto> (effective_args a \<epsilon>, best))
                     else store))))"
proof -
  let ?a = "effective_args a \<epsilon>"
  let ?tb = "train_loader a \<epsilon>" and ?db = "dev_loader a \<epsilon>"
  let ?c = "[Print (LoadingData (data_dir a) (batch_size a)), SaveConfig ?a (config_file_of ?a)]"
  have data: "output_file a \<noteq> None \<and> batches ?tb \<noteq> [] \<and> batches ?db \<noteq> []"
    if "fst (train a \<epsilon>) = Returned"
    using that by (cases "output_file a") (auto simp: train_def Let_def split: if_splits)
  have unfold: "train a \<epsilon>
      = train_seq2seq ?a \<epsilon> (lang a) ?tb ?db (data_dir a @ ''/'' @ out) (gold_file a) ?c"
    if "output_file a = Some out" "batches ?tb \<noteq> []" "batches ?db \<noteq> []" for out
    using that assms by (simp add: train_def Let_def)
  have 1: "fst (train a \<epsilon>) = Returned \<longleftrightarrow>
            output_file a \<noteq> None \<and> batches ?tb \<noteq> [] \<and> batches ?db \<noteq> [] \<and>
            1 \<le> num_epoch ?a \<and> log_step ?a \<noteq> 0 \<and> num_examples ?tb \<noteq> 0 \<and> 1 \<le> decay_epoch ?a"
  proof
    assume r: "fst (train a \<epsilon>) = Returned"
    from data[OF r] obtain out where o: "output_file a = Some out" by auto
    from r unfold[OF o] data[OF r] have
      "fst (train_seq2seq ?a \<epsilon> (lang a) ?tb ?db (data_dir a @ ''/'' @ out) (gold_file a) ?c)
         = Returned"
      by simp
    from train_seq2seq_Returned_conds[OF this] data[OF r]
    show "output_file a \<noteq> None \<and> batches ?tb \<noteq> [] \<and> batches ?db \<noteq> [] \<and>
            1 \<le> num_epoch ?a \<and> log_step ?a \<noteq> 0 \<and> num_examples ?tb \<noteq> 0 \<and> 1 \<le> decay_epoch ?a"
      by simp
  next
    assume c: "output_file a \<noteq> None \<and> batches ?tb \<noteq> [] \<and> batches ?db \<noteq> [] \<and>
            1 \<le> num_epoch ?a \<and> log_step ?a \<noteq> 0 \<and> num_examples ?tb \<noteq> 0 \<and> 1 \<le> decay_epoch ?a"
    then obtain out where o: "output_file a = Some out" by auto
    from c have "fst (train_seq2seq ?a \<epsilon> (lang a) ?tb ?db (data_dir a @ ''/'' @ out)
                        (gold_file a) ?c) = Returned"
      by (intro train_seq2seq_returns) simp_all
    with unfold[OF o] c show "fst (train a \<epsilon>) = Returned" by simp
  qed
  have 2: "\<exists>h i pre best.
              h = map (dev_f \<epsilon> ?db) [1..<Suc (nat (num_epoch ?a))] \<and>
              h \<noteq> [] \<and> i < length h \<and> h ! i = Max (set h) \<and> (\<forall>j<i. h ! j < Max (set h)) \<and>
              best = float_mul \<epsilon> (Max (set h)) 100 \<and>
              snd (train a \<epsilon>) = pre @ [Print (BestDev best (Suc i)), ParamUpdate (lang a) ?a best] \<and>
              (\<forall>store. presets_after (snd (train a \<epsilon>)) store
                  = preset_update store (lang a) ?a best) \<and>
              (\<forall>store c s. store (lang a) = Some (c, s) \<longrightarrow>
                  preset_update store (lang a) ?a best =
                    (if s < best then store(lang a \<mapsto> (?a, best)) else store))"
    if r: "fst (train a \<epsilon>) = Returned"
  proof -
    from data[OF r] obtain out where o: "output_file a = Some out" by auto
    obtain tr where t: "train a \<epsilon> = (Returned, tr)"
      using r by (cases "train a \<epsilon>") simp
    have s: "train_seq2seq ?a \<epsilon> (lang a) ?tb ?db (data_dir a @ ''/'' @ out) (gold_file a) ?c
               = (Returned, tr)"
      using t unfold[OF o] data[OF r] by simp
    from train_seq2seq_Returned[OF s] obtain st :: loop_state and i us where
      r1: "1 \<le> num_epoch ?a"
      and r2: "dev_score_history st = map (dev_f \<epsilon> ?db) [1..<Suc (nat (num_epoch ?a))]"
      and r3: "np_argmax (dev_score_history st) = Inr i"
      and r4: "list_all loop_event us"
      and r5: "tr = (?c @ [NewTrainer ?a (vocab_len ?tb)] @ us)
                @ [Print (TrainingEnded (nat (num_epoch ?a))),
                   Print (BestDev (float_mul \<epsilon> (Max (set (dev_score_history st))) 100) (Suc i)),
                   ParamUpdate (lang a) ?a (float_mul \<epsilon> (Max (set (dev_score_history st))) 100)]"
      by blast
    let ?h = "dev_score_history st"
    let ?best = "float_mul \<epsilon> (Max (set ?h)) 100"
    have ne: "?h \<noteq> []" using r1 r2 by (cases "nat (num_epoch ?a)") simp_all
    from np_argmax_first[OF ne] r3 have
      i: "i < length ?h" "?h ! i = Max (set ?h)" "\<forall>j<i. ?h ! j < Max (set ?h)"
      by auto
    let ?pre = "(?c @ [NewTrainer ?a (vocab_len ?tb)] @ us)
                  @ [Print (TrainingEnded (nat (num_epoch ?a)))]"
    have tt: "snd (train a \<epsilon>) = ?pre @ [Print (BestDev ?best (Suc i)), ParamUpdate (lang a) ?a ?best]"
      using r5 t by simp
    have p: "\<forall>store. presets_after (snd (train a \<epsilon>)) store
                = preset_update store (lang a) ?a ?best"
      by (simp add: t r5 presets_after_def loop_event_presets[OF r4])
    have u: "\<forall>store c s. store (lang a) = Some (c, s) \<longrightarrow>
               preset_update store (lang a) ?a ?best =
                 (if s < ?best then store(lang a \<mapsto> (?a, ?best)) else store)"
      by (simp add: preset_update_def)
    from r2 ne i tt p u show ?thesis by blast
  qed
  from 1 2 show ?thesis by blast
qed

text \<open>The second concrete run: scores 0.3, 0.5, 0.5, so the report is 50 at epoch 2, the
  first of the two epochs that reach it, and not epoch 1. On the spec's own example, a
  stored record of 80 is replaced by a run that achieves 82 and kept by one that achieves
  79; an equal score keeps it too.\<close>

theorem best_score_reported_witness:
  "\<not> dict_only (effective_args demo_args demo_env2) \<and>
   fst (train demo_args demo_env2) = Returned \<and>
   map (dev_f demo_env2 (dev_loader demo_args demo_env2)) [1..<Suc 3] = [3 / 10, 1 / 2, 1 / 2] \<and>
   np_argmax [3 / 10, 1 / 2, 1 / 2] = Inr 1 \<and>
   py_max [3 / 10, 1 / 2, 1 / 2] = Inr (1 / 2) \<and>
   train demo_args demo_env2 =
     (Returned, trace demo2_st3
                @ [Print (TrainingEnded 3), Print (BestDev 50 2),
                   ParamUpdate (Some ''fr'') demo_eff 50]) \<and>
   presets_after (snd (train demo_args demo_env2)) [Some ''fr'' \<mapsto> (demo_args, 40)]
     = [Some ''fr'' \<mapsto> (demo_eff, 50)] \<and>
   preset_update [Some ''fr'' \<mapsto> (demo_args, 80)] (Some ''fr'') demo_eff 82
     = [Some ''fr'' \<mapsto> (demo_eff, 82)] \<and>
   preset_update [Some ''fr'' \<mapsto> (demo_args, 80)] (Some ''fr'') demo_eff 79
     = [Some ''fr'' \<mapsto> (demo_args, 80)] \<and>
   preset_update [Some ''fr'' \<mapsto> (demo_args, 80)] (Some ''fr'') demo_eff 80
     = [Some ''fr'' \<mapsto> (demo_args, 80)]"
proof -
  have d: "\<not> dict_only (effective_args demo_args demo_env2)"
    by (simp add: demo2_args demo_eff_sel)
  have c: "output_file demo_args \<noteq> None \<and> batches (train_loader demo_args demo_env2) \<noteq> [] \<and>
           batches (dev_loader demo_args demo_env2) \<noteq> [] \<and>
           1 \<le> num_epoch (effective_args demo_args demo_env2) \<and>
           log_step (effective_args demo_args demo_env2) \<noteq> 0 \<and>
           num_examples (train_loader demo_args demo_env2) \<noteq> 0 \<and>
           1 \<le> decay_epoch (effective_args demo_args demo_env2)"
    by (simp add: demo2_args demo_eff_sel demo_sel) (simp add: demo_args_def)
  from best_score_reported[OF d] c have r: "fst (train demo_args demo_env2) = Returned"
    by blast
  from best_score_reported[OF d] r obtain h i pre best where
    b: "snd (train demo_args demo_env2) =
          pre @ [Print (BestDev best (Suc i)),
                 ParamUpdate (lang demo_args) (effective_args demo_args demo_env2) best]"
    and p: "\<forall>store. presets_after (snd (train demo_args demo_env2)) store =
              preset_update store (lang demo_args) (effective_args demo_args demo_env2) best"
    by blast
  have l: "lang demo_args = Some ''fr''" by (simp add: demo_args_def)
  from b have "best = 50" by (simp add: demo2_train_run)
  with p have "presets_after (snd (train demo_args demo_env2)) [Some ''fr'' \<mapsto> (demo_args, 40)]
                 = preset_update [Some ''fr'' \<mapsto> (demo_args, 40)] (Some ''fr'') demo_eff 50"
    by (simp add: l demo2_args)
  then have q: "presets_after (snd (train demo_args demo_env2)) [Some ''fr'' \<mapsto> (demo_args, 40)]
                 = [Some ''fr'' \<mapsto> (demo_eff, 50)]"
    by (simp add: preset_update_def)
  have m: "map (dev_f demo_env2 (dev_loader demo_args demo_env2)) [1..<Suc 3]
             = [3 / 10, 1 / 2, 1 / 2]"
    using demo2_dev_f by (simp add: demo2_args eval_nat_numeral upt_rec)
  have a: "np_argmax [3 / 10, 1 / 2, 1 / 2] = Inr 1" "py_max [3 / 10, 1 / 2, 1 / 2] = Inr (1 / 2)"
    by simp_all
  have u: "preset_update [Some ''fr'' \<mapsto> (demo_args, 80)] (Some ''fr'') demo_eff 82
             = [Some ''fr'' \<mapsto> (demo_eff, 82)]"
    "preset_update [Some ''fr'' \<mapsto> (demo_args, 80)] (Some ''fr'') demo_eff 79
             = [Some ''fr'' \<mapsto> (demo_args, 80)]"
    "preset_update [Some ''fr'' \<mapsto> (demo_args, 80)] (Some ''fr'') demo_eff 80
             = [Some ''fr'' \<mapsto> (demo_args, 80)]"
    by (simp_all add: preset_update_def)
  from d r m a demo2_train_run q u show ?thesis by blast
qed

subsection \<open>Evaluation and the entry point\<close>

text \<open>
  C7. \<^verbatim>\<open>evaluate\<close> reads the strategy flag and the checkpoint path from the configuration
  it loads: changing \<open>dict_only\<close> or \<open>save_name\<close> on the command line changes nothing.
  Without eval batches it exits after a score line that carries no score, and has built
  no trainer, loaded no model and scored nothing. With eval batches (and an output file)
  it builds the dictionary trainer if the loaded flag is set and the sequence trainer
  otherwise, loads the checkpoint named in the loaded configuration, predicts once (one
  call on the candidates, or one call per eval batch), writes, scores and reports.
  With eval batches and no output file it raises \<^verbatim>\<open>TypeError\<close> at line 196, before any
  trainer is built.
\<close>

theorem evaluate_uses_persisted_config:
  "evaluate (a\<lparr>dict_only := d, save_name := n\<rparr>) \<epsilon> = evaluate a \<epsilon> \<and>
   (let cfg = load_config \<epsilon> (config_file_of a);
        batch = DataLoader \<epsilon> (data_dir a @ ''/'' @ fmt (eval_file a)) (batch_size a) cfg True;
        start = [LoadConfig (config_file_of a), Print (LoadingData (data_dir a) (batch_size a))]
    in (batches batch = [] \<longrightarrow>
          evaluate a \<epsilon> =
            (Exited, start @ [Print SkipEvaluation, Print ScoreHeader,
                              Print (ScoreLine (lang a) None)]) \<and>
          list_all (\<lambda>e. \<not> trainer_event e) (snd (evaluate a \<epsilon>))) \<and>
       (batches batch \<noteq> [] \<longrightarrow> output_file a = None \<longrightarrow>
          evaluate a \<epsilon> = (Raised TypeError, start)) \<and>
       (batches batch \<noteq> [] \<longrightarrow> (\<forall>out. output_file a = Some out \<longrightarrow>
          (dict_only cfg \<longrightarrow>
             evaluate a \<epsilon> =
               (Returned,
                start @ [NewDictTrainer cfg, TrainerLoad (save_name cfg),
                         DictPredict (mwt_expansion_cands batch),
                         WriteConll (loaded_dict_predict \<epsilon> (save_name cfg) (mwt_expansion_cands batch))
                           (data_dir a @ ''/'' @ out),
                         Score (data_dir a @ ''/'' @ out) (gold_file a), Print ScoreHeader,
                         Print (ScoreLine (lang a) (Some (snd (snd (score \<epsilon>
                            (loaded_dict_predict \<epsilon> (save_name cfg) (mwt_expansion_cands batch))))
                            * 100)))])) \<and>
          (\<not> dict_only cfg \<longrightarrow>
             evaluate a \<epsilon> =
               (Returned,
                start @ [NewTrainer cfg (vocab_len batch), TrainerLoad (save_name cfg),
                         Print StartEvaluation] @ map Predict (batches batch)
                  @ [WriteConll (concat (map (loaded_predict \<epsilon> (save_name cfg)) (batches batch)))
                       (data_dir a @ ''/'' @ out),
                     Score (data_dir a @ ''/'' @ out) (gold_file a), Print ScoreHeader,
                     Print (ScoreLine (lang a) (Some (snd (snd (score \<epsilon>
                        (concat (map (loaded_predict \<epsilon> (save_name cfg)) (batches batch)))))
                        * 100)))])))))"
proof -
  have "evaluate (a\<lparr>dict_only := d, save_name := n\<rparr>) \<epsilon> = evaluate a \<epsilon>"
    by (cases "output_file a") (simp_all add: evaluate_def config_file_of_def Let_def)
  moreover have "let cfg = load_config \<epsilon> (config_file_of a);
        batch = DataLoader \<epsilon> (data_dir a @ ''/'' @ fmt (eval_file a)) (batch_size a) cfg True;
        start = [LoadConfig (config_file_of a), Print (LoadingData (data_dir a) (batch_size a))]
    in (batches batch = [] \<longrightarrow>
          evaluate a \<epsilon> =
            (Exited, start @ [Print SkipEvaluation, Print ScoreHeader,
                              Print (ScoreLine (lang a) None)]) \<and>
          list_all (\<lambda>e. \<not> trainer_event e) (snd (evaluate a \<epsilon>))) \<and>
       (batches batch \<noteq> [] \<longrightarrow> output_file a = None \<longrightarrow>
          evaluate a \<epsilon> = (Raised TypeError, start)) \<and>
       (batches batch \<noteq> [] \<longrightarrow> (\<forall>out. output_file a = Some out \<longrightarrow>
          (dict_only cfg \<longrightarrow>
             evaluate a \<epsilon> =
               (Returned,
                start @ [NewDictTrainer cfg, TrainerLoad (save_name cfg),
                         DictPredict (mwt_expansion_cands batch),
                         WriteConll (loaded_dict_predict \<epsilon> (save_name cfg) (mwt_expansion_cands batch))
                           (data_dir a @ ''/'' @ out),
                         Score (data_dir a @ ''/'' @ out) (gold_file a), Print ScoreHeader,
                         Print (ScoreLine (lang a) (Some (snd (snd (score \<epsilon>
                            (loaded_dict_predict \<epsilon> (save_name cfg) (mwt_expansion_cands batch))))
                            * 100)))])) \<and>
          (\<not> dict_only cfg \<longrightarrow>
             evaluate a \<epsilon> =
               (Returned,
                start @ [NewTrainer cfg (vocab_len batch), TrainerLoad (save_name cfg),
                         Print StartEvaluation] @ map Predict (batches batch)
                  @ [WriteConll (concat (map (loaded_predict \<epsilon> (save_name cfg)) (batches batch)))
                       (data_dir a @ ''/'' @ out),
                     Score (data_dir a @ ''/'' @ out) (gold_file a), Print ScoreHeader,
                     Print (ScoreLine (lang a) (Some (snd (snd (score \<epsilon>
                        (concat (map (loaded_predict \<epsilon> (save_name cfg)) (batches batch)))))
                        * 100)))]))))"
    by (simp add: evaluate_def Let_def)
  ultimately show ?thesis by blast
qed

text \<open>The command line of the concrete run asks for the sequence strategy, the loaded
  configuration for the dictionary: evaluation uses the dictionary trainer and the loaded
  path. Without an eval file there are no batches and nothing is loaded.\<close>

theorem evaluate_uses_persisted_config_witness:
  "dict_only demo_args = False \<and>
   dict_only (load_config demo_env (config_file_of demo_args)) = True \<and>
   evaluate demo_args demo_env =
     (Returned,
      [LoadConfig ''saved/fr_config.json'', Print (LoadingData ''data'' 50),
       NewDictTrainer (demo_eff\<lparr>dict_only := True\<rparr>), TrainerLoad (Some ''saved/fr.pt''),
       DictPredict [''au''], WriteConll [''au''] ''data/out.conllu'',
       Score ''data/out.conllu'' (Some ''gold.conllu''), Print ScoreHeader,
       Print (ScoreLine (Some ''fr'') (Some 30))]) \<and>
   evaluate (demo_args\<lparr>eval_file := None\<rparr>) demo_env =
     (Exited,
      [LoadConfig ''saved/fr_config.json'', Print (LoadingData ''data'' 50),
       Print SkipEvaluation, Print ScoreHeader, Print (ScoreLine (Some ''fr'') None)])"
proof -
  let ?cfg = "demo_eff\<lparr>dict_only := True\<rparr>"
  have c: "config_file_of demo_args = ''saved/fr_config.json''"
    "config_file_of (demo_args\<lparr>eval_file := None\<rparr>) = ''saved/fr_config.json''"
    by (simp_all add: config_file_of_def demo_args_def)
  have l: "load_config demo_env ''saved/fr_config.json'' = ?cfg"
    by (simp add: demo_env_def)
  have s: "data_dir demo_args = ''data''" "batch_size demo_args = 50"
    "eval_file demo_args = Some ''dev.conllu''" "output_file demo_args = Some ''out.conllu''"
    "gold_file demo_args = Some ''gold.conllu''" "lang demo_args = Some ''fr''"
    "dict_only demo_args = False"
    by (simp_all add: demo_args_def)
  have b: "DataLoader demo_env ''data/dev.conllu'' 50 ?cfg True = demo_dev"
    "DataLoader demo_env ''data/None'' 50 ?cfg True = no_data"
    by (simp_all add: demo_env_def)
  have p: "batches demo_dev \<noteq> []" "batches no_data = []" "dict_only ?cfg"
    "save_name ?cfg = Some ''saved/fr.pt''" "mwt_expansion_cands demo_dev = [''au'']"
    "loaded_dict_predict demo_env (Some ''saved/fr.pt'') [''au''] = [''au'']"
    "snd (snd (score demo_env [''au''])) = 3 / 10"
    by (simp_all add: demo_dev_def no_data_def demo_eff_def demo_args_def demo_env_def)
  from evaluate_uses_persisted_config[where a = demo_args and \<epsilon> = demo_env]
  have 1: "evaluate demo_args demo_env =
     (Returned,
      [LoadConfig ''saved/fr_config.json'', Print (LoadingData ''data'' 50),
       NewDictTrainer ?cfg, TrainerLoad (Some ''saved/fr.pt''),
       DictPredict [''au''], WriteConll [''au''] ''data/out.conllu'',
       Score ''data/out.conllu'' (Some ''gold.conllu''), Print ScoreHeader,
       Print (ScoreLine (Some ''fr'') (Some 30))])"
    by (simp add: Let_def c l s b p)
  from evaluate_uses_persisted_config[where a = "demo_args\<lparr>eval_file := None\<rparr>"
      and \<epsilon> = demo_env]
  have 2: "evaluate (demo_args\<lparr>eval_file := None\<rparr>) demo_env =
     (Exited,
      [LoadConfig ''saved/fr_config.json'', Print (LoadingData ''data'' 50),
       Print SkipEvaluation, Print ScoreHeader, Print (ScoreLine (Some ''fr'') None)])"
    by (simp add: Let_def c l s b p)
  from 1 2 show ?thesis by (simp add: c l s p)
qed

lemma main_in_range:
  assumes "0 \<le> seed a" and "seed a \<le> 2 ^ 32 - 1"
  shows "take 3 (snd (main a \<epsilon>)) = [TorchManualSeed (seed a), NumpySeed (seed a), RandomSeed 1234]"
    and "filter is_random_seed (snd (main a \<epsilon>)) = [RandomSeed 1234]"
  using assms by (simp_all add: main_def Let_def split_beta train_no_seed evaluate_no_seed)

lemma main_out_of_range:
  assumes "seed a < 0 \<or> 2 ^ 32 - 1 < seed a"
  shows "main a \<epsilon> =
           (if seed a < - (2 ^ 63) \<or> 2 ^ 64 - 1 < seed a then (Raised RuntimeError, [])
            else (Raised ValueError, [TorchManualSeed (seed a)]))"
  using assms by (auto simp: main_def)

text \<open>
  C10. For a seed that numpy accepts, \<open>0 \<le> seed \<le> 2^32 - 1\<close>, \<^verbatim>\<open>main\<close> starts by seeding
  torch and numpy with the configured seed and Python's \<^verbatim>\<open>random\<close> with the constant
  1234; this is the only seeding of \<^verbatim>\<open>random\<close> in the run, whatever the mode and the
  data, so two runs that differ only in such seeds seed \<^verbatim>\<open>random\<close> identically. For any
  other seed \<^verbatim>\<open>main\<close> raises in line 68 or 69 and \<^verbatim>\<open>random\<close> is never seeded.
\<close>

theorem random_seed_constant:
  "(0 \<le> seed a \<and> seed a \<le> 2 ^ 32 - 1 \<longrightarrow>
      take 3 (snd (main a \<epsilon>)) = [TorchManualSeed (seed a), NumpySeed (seed a), RandomSeed 1234] \<and>
      filter is_random_seed (snd (main a \<epsilon>)) = [RandomSeed 1234] \<and>
      (\<forall>s. 0 \<le> s \<and> s \<le> 2 ^ 32 - 1 \<longrightarrow>
           filter is_random_seed (snd (main (a\<lparr>seed := s\<rparr>) \<epsilon>))
             = filter is_random_seed (snd (main a \<epsilon>)))) \<and>
   (seed a < 0 \<or> 2 ^ 32 - 1 < seed a \<longrightarrow>
      filter is_random_seed (snd (main a \<epsilon>)) = [] \<and>
      (fst (main a \<epsilon>) = Raised ValueError \<or> fst (main a \<epsilon>) = Raised RuntimeError))"
proof (intro conjI impI allI)
  assume r: "0 \<le> seed a \<and> seed a \<le> 2 ^ 32 - 1"
  then show "take 3 (snd (main a \<epsilon>))
               = [TorchManualSeed (seed a), NumpySeed (seed a), RandomSeed 1234]"
    by (simp add: main_in_range(1))
  from r show f: "filter is_random_seed (snd (main a \<epsilon>)) = [RandomSeed 1234]"
    by (simp add: main_in_range(2))
  fix s :: int assume "0 \<le> s \<and> s \<le> 2 ^ 32 - 1"
  then have "filter is_random_seed (snd (main (a\<lparr>seed := s\<rparr>) \<epsilon>)) = [RandomSeed 1234]"
    by (intro main_in_range(2)) simp_all
  with f show "filter is_random_seed (snd (main (a\<lparr>seed := s\<rparr>) \<epsilon>))
                 = filter is_random_seed (snd (main a \<epsilon>))"
    by simp
next
  assume o: "seed a < 0 \<or> 2 ^ 32 - 1 < seed a"
  show "filter is_random_seed (snd (main a \<epsilon>)) = []"
    by (simp add: main_out_of_range[OF o])
  show "fst (main a \<epsilon>) = Raised ValueError \<or> fst (main a \<epsilon>) = Raised RuntimeError"
    by (simp add: main_out_of_range[OF o])
qed

theorem random_seed_constant_witness:
  "seed demo_args = 7 \<and>
   take 3 (snd (main demo_args demo_env)) = [TorchManualSeed 7, NumpySeed 7, RandomSeed 1234] \<and>
   filter is_random_seed (snd (main (demo_args\<lparr>seed := 99\<rparr>) demo_env)) = [RandomSeed 1234] \<and>
   filter is_random_seed (snd (main demo_args demo_env)) = [RandomSeed 1234] \<and>
   seed (demo_args\<lparr>seed := 2 ^ 32\<rparr>) = 4294967296 \<and>
   filter is_random_seed (snd (main (demo_args\<lparr>seed := 2 ^ 32\<rparr>) demo_env)) = []"
proof -
  have s: "seed demo_args = 7" by (simp add: demo_args_def)
  from random_seed_constant[of demo_args demo_env] s
  have 1: "take 3 (snd (main demo_args demo_env))
             = [TorchManualSeed 7, NumpySeed 7, RandomSeed 1234]"
    "filter is_random_seed (snd (main demo_args demo_env)) = [RandomSeed 1234]"
    "filter is_random_seed (snd (main (demo_args\<lparr>seed := 99\<rparr>) demo_env)) = [RandomSeed 1234]"
    by simp_all
  from random_seed_constant[of "demo_args\<lparr>seed := 2 ^ 32\<rparr>" demo_env]
  have 2: "filter is_random_seed (snd (main (demo_args\<lparr>seed := 2 ^ 32\<rparr>) demo_env)) = []"
    by simp
  from s 1 2 show ?thesis by simp
qed

text \<open>The claim as it was made, "regardless of the configured seed", fails at the seed
  \<open>-1\<close>, which argparse accepts: numpy rejects it at line 69, the run ends there, and
  \<^verbatim>\<open>random\<close> is not seeded, unlike in the run with seed 7.\<close>

theorem random_seed_regardless_counterexample:
  "seed (demo_args\<lparr>seed := - 1\<rparr>) = - 1 \<and>
   main (demo_args\<lparr>seed := - 1\<rparr>) demo_env = (Raised ValueError, [TorchManualSeed (- 1)]) \<and>
   filter is_random_seed (snd (main (demo_args\<lparr>seed := - 1\<rparr>) demo_env)) = [] \<and>
   filter is_random_seed (snd (main demo_args demo_env)) = [RandomSeed 1234]"
proof -
  have o: "seed (demo_args\<lparr>seed := - 1\<rparr>) < 0 \<or> 2 ^ 32 - 1 < seed (demo_args\<lparr>seed := - 1\<rparr>)"
    by simp
  have m: "main (demo_args\<lparr>seed := - 1\<rparr>) demo_env = (Raised ValueError, [TorchManualSeed (- 1)])"
    by (simp add: main_out_of_range[OF o])
  have "filter is_random_seed (snd (main demo_args demo_env)) = [RandomSeed 1234]"
    by (intro main_in_range(2)) (simp_all add: demo_args_def)
  with m show ?thesis by simp
qed


end
